theory Spec2Isabelle
  imports Main "HOL-Library.Char_ord" "HOL-Library.List_Lexorder" "HOL-Library.Multiset"
begin

section \<open>JavaScript values\<close>

text \<open>
  A JavaScript string is a sequence of UTF-16 code units. The model uses \<^typ>\<open>string\<close>,
  whose characters are the code units \<open>0..255\<close>; \<open>length\<close> is the \<open>.length\<close> of
  the source, and the order of \<open>HOL-Library.List_Lexorder\<close> over \<open>HOL-Library.Char_ord\<close>
  is the code-unit order that \<open>Array.prototype.sort()\<close> uses without a comparator.

  A Number is an IEEE-754 double. \<open>Fin m e\<close> is the finite value \<open>m \<times> 2\<^sup>e\<close>, kept in
  normal form: \<open>m\<close> is odd, or \<open>m = 0\<close> and \<open>e = 0\<close> (\<open>-0\<close> and \<open>+0\<close> are both \<open>Fin 0 0\<close>;
  they are equally falsy and print alike).
\<close>

datatype jsnum = Fin int int | NaN | PosInf | NegInf

datatype json =
    JUndefined
  | JNull
  | JBool bool
  | JNum jsnum
  | JStr string
  | JArr "json list"
  | JObj "(string \<times> json) list"

text \<open>
  \<open>JObj kvs\<close> lists the own enumerable properties of an object in the order in which
  \<open>Object.keys\<close>, \<open>for-in\<close> and \<open>JSON.stringify\<close> enumerate them.
\<close>

subsection \<open>Decimal digits\<close>

text \<open>Digits are computed on \<^typ>\<open>int\<close>, whose numerals divide in binary.\<close>

definition digit_char :: "int \<Rightarrow> char" where
  "digit_char d = ''0123456789'' ! nat d"

function dec_int :: "int \<Rightarrow> string" where
  "dec_int n = (if n < 10 then [digit_char n] else dec_int (n div 10) @ [digit_char (n mod 10)])"
  by pat_completeness auto
termination
  by (relation "measure nat") auto

declare dec_int.simps [simp del]

definition dec_nat :: "nat \<Rightarrow> string" where
  "dec_nat n = dec_int (int n)"

definition is_digit :: "char \<Rightarrow> bool" where
  "is_digit c = (c \<in> set ''0123456789'')"

definition digit_val :: "char \<Rightarrow> int" where
  "digit_val c = int (length (takeWhile (\<lambda>d. d \<noteq> c) ''0123456789''))"

definition int_of_digits :: "string \<Rightarrow> int" where
  "int_of_digits ds = foldl (\<lambda>acc c. 10 * acc + digit_val c) 0 ds"

subsection \<open>Doubles: rounding, arithmetic, printing\<close>

text \<open>The normal form of \<open>m \<times> 2\<^sup>e\<close>.\<close>

function normalize_fin :: "int \<Rightarrow> int \<Rightarrow> jsnum" where
  "normalize_fin m e =
     (if m = 0 then Fin 0 0
      else if even m then normalize_fin (m div 2) (e + 1)
      else Fin m e)"
  by pat_completeness auto
termination
  by (relation "measure (\<lambda>(m, e). nat \<bar>m\<bar>)") auto

declare normalize_fin.simps [simp del]

definition num_of_int :: "int \<Rightarrow> jsnum" where
  "num_of_int i = normalize_fin i 0"

definition num_neg :: "jsnum \<Rightarrow> jsnum" where
  "num_neg a = (case a of Fin m e \<Rightarrow> Fin (- m) e | NaN \<Rightarrow> NaN | PosInf \<Rightarrow> NegInf | NegInf \<Rightarrow> PosInf)"

text \<open>\<open>int_digits b n\<close> is the number of digits of \<open>n\<close> in base \<open>b\<close>.\<close>

function int_digits :: "int \<Rightarrow> int \<Rightarrow> nat" where
  "int_digits b n = (if n \<le> 0 \<or> b < 2 then 0 else Suc (int_digits b (n div b)))"
  by pat_completeness auto
termination
  by (relation "measure (\<lambda>(b, n). nat n)") (auto simp: int_div_less_self)

declare int_digits.simps [simp del]

text \<open>\<open>ipow b j\<close> is \<open>b\<^sup>j\<close> for \<open>j \<ge> 0\<close> and \<open>1\<close> otherwise, so that the ratio
  \<open>ipow b j / ipow b (- j)\<close> is \<open>b\<^sup>j\<close> for every integer \<open>j\<close>.\<close>

definition ipow :: "int \<Rightarrow> int \<Rightarrow> int" where
  "ipow b j = (if 0 \<le> j then b ^ nat j else 1)"

text \<open>\<open>ilog_ratio b p q\<close> is \<open>\<lfloor>log\<^sub>b (p / q)\<rfloor>\<close> for positive \<open>p\<close> and \<open>q\<close>.\<close>

definition ilog_ratio :: "int \<Rightarrow> int \<Rightarrow> int \<Rightarrow> int" where
  "ilog_ratio b p q =
     (let d = int (int_digits b p) - int (int_digits b q)
      in if q * ipow b d \<le> p * ipow b (- d) then d else d - 1)"

text \<open>The integer nearest to \<open>num / den\<close>, ties to even (\<open>den > 0\<close>).\<close>

definition round_half_even_div :: "int \<Rightarrow> int \<Rightarrow> int" where
  "round_half_even_div num den =
     (let k = num div den; r = num mod den
      in if 2 * r < den then k else if den < 2 * r then k + 1 else if even k then k else k + 1)"

text \<open>
  \<open>round_ratio p q\<close> is the double nearest to the real number \<open>p / q\<close> for \<open>q > 0\<close>
  (IEEE-754 binary64, round to nearest, ties to even): 53 significant bits, least
  exponent \<open>-1074\<close>, overflow to infinity from \<open>2\<^sup>1\<^sup>0\<^sup>2\<^sup>4\<close> on.
\<close>

definition finish_round :: "int \<Rightarrow> int \<Rightarrow> jsnum" where
  "finish_round m e =
     (if e < 971 then normalize_fin m e
      else if 2 ^ 53 \<le> m * 2 ^ nat (e - 971) then PosInf
      else normalize_fin m e)"

definition round_at :: "int \<Rightarrow> int \<Rightarrow> int \<Rightarrow> jsnum" where
  "round_at p q e = finish_round (round_half_even_div (p * ipow 2 (- e)) (q * ipow 2 e)) e"

definition round_ratio :: "int \<Rightarrow> int \<Rightarrow> jsnum" where
  "round_ratio p q =
     (if p = 0 then Fin 0 0
      else if p < 0 then num_neg (round_at (- p) q (max (ilog_ratio 2 (- p) q - 52) (- 1074)))
      else round_at p q (max (ilog_ratio 2 p q - 52) (- 1074)))"

text \<open>A finite Number \<open>Fin m e\<close> as the ratio \<open>fin_num m e / fin_den e\<close> of integers.\<close>

definition fin_num :: "int \<Rightarrow> int \<Rightarrow> int" where
  "fin_num m e = m * ipow 2 e"

definition fin_den :: "int \<Rightarrow> int" where
  "fin_den e = ipow 2 (- e)"

text \<open>\<open>a * b\<close>, \<open>a - b\<close>, \<open>a + 1\<close>, \<open>a / c\<close> for a positive integer constant \<open>c\<close>,
  \<open>a < b\<close> (false whenever an operand is \<open>NaN\<close>) and \<open>Math.floor(a)\<close>.\<close>

definition num_times :: "jsnum \<Rightarrow> jsnum \<Rightarrow> jsnum" where
  "num_times a b =
     (case (a, b) of
        (Fin m e, Fin m' e') \<Rightarrow> round_ratio (fin_num m e * fin_num m' e') (fin_den e * fin_den e')
      | (NaN, _) \<Rightarrow> NaN
      | (_, NaN) \<Rightarrow> NaN
      | (Fin m e, PosInf) \<Rightarrow> (if m = 0 then NaN else if 0 < m then PosInf else NegInf)
      | (Fin m e, NegInf) \<Rightarrow> (if m = 0 then NaN else if 0 < m then NegInf else PosInf)
      | (PosInf, Fin m e) \<Rightarrow> (if m = 0 then NaN else if 0 < m then PosInf else NegInf)
      | (NegInf, Fin m e) \<Rightarrow> (if m = 0 then NaN else if 0 < m then NegInf else PosInf)
      | (PosInf, PosInf) \<Rightarrow> PosInf
      | (NegInf, NegInf) \<Rightarrow> PosInf
      | (PosInf, NegInf) \<Rightarrow> NegInf
      | (NegInf, PosInf) \<Rightarrow> NegInf)"

definition num_succ :: "jsnum \<Rightarrow> jsnum" where
  "num_succ a =
     (case a of
        Fin m e \<Rightarrow> round_ratio (fin_num m e + fin_den e) (fin_den e)
      | _ \<Rightarrow> a)"

definition num_div_const :: "jsnum \<Rightarrow> int \<Rightarrow> jsnum" where
  "num_div_const a c =
     (case a of
        Fin m e \<Rightarrow> round_ratio (fin_num m e) (fin_den e * c)
      | _ \<Rightarrow> a)"

definition num_less :: "jsnum \<Rightarrow> jsnum \<Rightarrow> bool" where
  "num_less a b =
     (case (a, b) of
        (NaN, _) \<Rightarrow> False
      | (_, NaN) \<Rightarrow> False
      | (Fin m e, Fin m' e') \<Rightarrow> fin_num m e * fin_den e' < fin_num m' e' * fin_den e
      | (NegInf, NegInf) \<Rightarrow> False
      | (NegInf, _) \<Rightarrow> True
      | (_, NegInf) \<Rightarrow> False
      | (PosInf, _) \<Rightarrow> False
      | (Fin m e, PosInf) \<Rightarrow> True)"

definition math_floor :: "jsnum \<Rightarrow> jsnum" where
  "math_floor a =
     (case a of
        Fin m e \<Rightarrow> normalize_fin (fin_num m e div fin_den e) 0
      | _ \<Rightarrow> a)"

text \<open>
  \<open>Number::toString\<close>. For a positive double \<open>x = p / q\<close> with \<open>10\<^sup>n\<^sup>-\<^sup>1 \<le> x < 10\<^sup>n\<close>, the
  digits are the least number \<open>k\<close> of decimal digits \<open>s\<close> such that \<open>s \<times> 10\<^sup>n\<^sup>-\<^sup>k\<close> rounds
  to \<open>x\<close>; \<open>digits_at\<close> tries the two \<open>k\<close>-digit neighbours of \<open>x\<close> and prefers the closer
  one, \<open>shortest_digits\<close> tries \<open>k, k + 1, \<dots>, 17\<close>. The 17 digits nearest to a double
  round to it, so the search ends at 17 digits at the latest; the function takes those
  digits there in any case. An integer up to \<open>2\<^sup>5\<^sup>3\<close> prints as its decimal digits.
\<close>

definition digits_at :: "jsnum \<Rightarrow> int \<Rightarrow> int \<Rightarrow> int \<Rightarrow> int \<Rightarrow> (int \<times> int) option" where
  "digits_at x p q n k =
     (let num = p * ipow 10 (k - n);
          den = q * ipow 10 (n - k);
          lo = num div den;
          r = num mod den;
          hi = lo + 1;
          lo_ok = (round_ratio (lo * ipow 10 (n - k)) (ipow 10 (k - n)) = x);
          hi_ok = (round_ratio (hi * ipow 10 (n - k)) (ipow 10 (k - n)) = x)
      in if lo_ok \<and> (\<not> hi_ok \<or> 2 * r < den \<or> (2 * r = den \<and> even lo)) then Some (lo, n)
         else if hi_ok then (if hi = ipow 10 k then Some (ipow 10 (k - 1), n + 1) else Some (hi, n))
         else None)"

function shortest_digits :: "jsnum \<Rightarrow> int \<Rightarrow> int \<Rightarrow> int \<Rightarrow> int \<Rightarrow> (int \<times> int \<times> int)" where
  "shortest_digits x p q n k =
     (if 17 \<le> k
      then case digits_at x p q n k of
             Some (s, n') \<Rightarrow> (k, s, n')
           | None \<Rightarrow> (k, round_half_even_div (p * ipow 10 (k - n)) (q * ipow 10 (n - k)), n)
      else case digits_at x p q n k of
             Some (s, n') \<Rightarrow> (k, s, n')
           | None \<Rightarrow> shortest_digits x p q n (k + 1))"
  by pat_completeness auto
termination
  by (relation "measure (\<lambda>(x, p, q, n, k). nat (17 - k))") auto

declare shortest_digits.simps [simp del]

definition pos_to_string :: "int \<Rightarrow> int \<Rightarrow> string" where
  "pos_to_string m e =
     (if 0 \<le> e \<and> m * 2 ^ nat e \<le> 2 ^ 53 then dec_int (m * 2 ^ nat e)
      else
      let p = fin_num m e;
          q = fin_den e;
          (k, s, n) = shortest_digits (Fin m e) p q (ilog_ratio 10 p q + 1) 1;
          ds = dec_int s;
          x = n - 1;
          xs = (if 0 \<le> x then CHR ''+'' # dec_int x else CHR ''-'' # dec_int (- x))
      in if k \<le> n \<and> n \<le> 21 then ds @ replicate (nat (n - k)) CHR ''0''
         else if 0 < n \<and> n \<le> 21 then take (nat n) ds @ CHR ''.'' # drop (nat n) ds
         else if - 6 < n \<and> n \<le> 0 then ''0.'' @ replicate (nat (- n)) CHR ''0'' @ ds
         else if k = 1 then ds @ CHR ''e'' # xs
         else take 1 ds @ CHR ''.'' # drop 1 ds @ CHR ''e'' # xs)"

definition num_to_string :: "jsnum \<Rightarrow> string" where
  "num_to_string a =
     (case a of
        NaN \<Rightarrow> ''NaN''
      | PosInf \<Rightarrow> ''Infinity''
      | NegInf \<Rightarrow> ''-Infinity''
      | Fin m e \<Rightarrow>
          if m = 0 then ''0''
          else if m < 0 then CHR ''-'' # pos_to_string (- m) e
          else pos_to_string m e)"

subsection \<open>Truthiness, property access, property order\<close>

definition truthy :: "json \<Rightarrow> bool" where
  "truthy v =
     (case v of
        JUndefined \<Rightarrow> False
      | JNull \<Rightarrow> False
      | JBool b \<Rightarrow> b
      | JNum n \<Rightarrow> n \<noteq> NaN \<and> n \<noteq> Fin 0 0
      | JStr s \<Rightarrow> s \<noteq> []
      | JArr _ \<Rightarrow> True
      | JObj _ \<Rightarrow> True)"

text \<open>\<open>o[k]\<close> and \<open>o.k\<close> on own properties; an absent property reads \<open>undefined\<close>.\<close>

definition obj_get :: "(string \<times> json) list \<Rightarrow> string \<Rightarrow> json" where
  "obj_get kvs k = (case map_of kvs k of None \<Rightarrow> JUndefined | Some v \<Rightarrow> v)"

text \<open>
  An array index is a canonical numeric string of value at most \<open>2\<^sup>3\<^sup>2 - 2\<close>. An ordinary
  object enumerates its array-index keys first, in ascending numeric order, and its
  other string keys after them, in the order of their creation.
\<close>

definition is_array_index :: "string \<Rightarrow> bool" where
  "is_array_index k =
     (case k of
        [] \<Rightarrow> False
      | c # cs \<Rightarrow> list_all is_digit k \<and> (cs = [] \<or> c \<noteq> CHR ''0'') \<and>
                 int_of_digits k \<le> 4294967294)"

fun insert_index :: "int \<Rightarrow> string \<Rightarrow> json \<Rightarrow> (string \<times> json) list \<Rightarrow> (string \<times> json) list" where
  "insert_index i k v [] = [(k, v)]"
| "insert_index i k v ((k', v') # rest) =
     (if is_array_index k' \<and> int_of_digits k' < i then (k', v') # insert_index i k v rest
      else (k, v) # (k', v') # rest)"

text \<open>
  The assignment \<open>o[k] = v\<close> on an ordinary object created by \<open>{}\<close>. The key
  \<open>__proto__\<close> reaches the accessor inherited from \<open>Object.prototype\<close> and creates no
  own property.
\<close>

definition obj_set :: "(string \<times> json) list \<Rightarrow> string \<Rightarrow> json \<Rightarrow> (string \<times> json) list" where
  "obj_set kvs k v =
     (if k = ''__proto__'' then kvs
      else if k \<in> set (map fst kvs) then map (\<lambda>(k', v'). if k' = k then (k', v) else (k', v')) kvs
      else if is_array_index k then insert_index (int_of_digits k) k v kvs
      else kvs @ [(k, v)])"

subsection \<open>Conversions: \<open>String(v)\<close>, \<open>Number(v)\<close>, \<open>parseFloat\<close>, \<open>parseInt\<close>\<close>

fun join_with :: "string \<Rightarrow> string list \<Rightarrow> string" where
  "join_with sep [] = []"
| "join_with sep [s] = s"
| "join_with sep (s # t # ss) = s @ sep @ join_with sep (t # ss)"

text \<open>\<open>String(v)\<close>, which is also \<open>v.toString()\<close> where \<open>v\<close> is neither \<open>undefined\<close>
  nor \<open>null\<close>. An array joins its elements with commas, \<open>null\<close> and \<open>undefined\<close>
  elements as empty strings; a plain object prints as \<open>[object Object]\<close>.\<close>

fun to_string :: "json \<Rightarrow> string"
  and elems_to_strings :: "json list \<Rightarrow> string list"
where
  "to_string JUndefined = ''undefined''"
| "to_string JNull = ''null''"
| "to_string (JBool b) = (if b then ''true'' else ''false'')"
| "to_string (JNum n) = num_to_string n"
| "to_string (JStr s) = s"
| "to_string (JArr vs) = join_with '','' (elems_to_strings vs)"
| "to_string (JObj kvs) = ''[object Object]''"
| "elems_to_strings [] = []"
| "elems_to_strings (v # vs) =
     (if v = JUndefined \<or> v = JNull then [] else to_string v) # elems_to_strings vs"

definition is_ws :: "char \<Rightarrow> bool" where
  "is_ws c = (c \<in> {CHR 0x09, CHR 0x0A, CHR 0x0B, CHR 0x0C, CHR 0x0D, CHR 0x20, CHR 0xA0})"

definition trim :: "string \<Rightarrow> string" where
  "trim s = rev (dropWhile is_ws (rev (dropWhile is_ws s)))"

text \<open>
  \<open>scan_decimal s\<close> reads the longest prefix of \<open>s\<close> that is an unsigned decimal literal
  (digits, an optional fraction, an optional exponent) and returns \<open>(d, x, rest)\<close> with
  value \<open>d \<times> 10\<^sup>x\<close>, or \<open>None\<close> when \<open>s\<close> starts with no such literal.
\<close>

definition scan_exponent :: "string \<Rightarrow> int \<times> string" where
  "scan_exponent r =
     (case r of
        [] \<Rightarrow> (0, r)
      | c # t \<Rightarrow>
          if c = CHR ''e'' \<or> c = CHR ''E'' then
            (let neg = (t \<noteq> [] \<and> hd t = CHR ''-'');
                 t' = (if t \<noteq> [] \<and> (hd t = CHR ''-'' \<or> hd t = CHR ''+'') then tl t else t);
                 ds = takeWhile is_digit t'
             in if ds = [] then (0, r)
                else (if neg then - int_of_digits ds else int_of_digits ds, dropWhile is_digit t'))
          else (0, r))"

definition scan_decimal :: "string \<Rightarrow> (int \<times> int \<times> string) option" where
  "scan_decimal s =
     (let int_ds = takeWhile is_digit s;
          r1 = dropWhile is_digit s;
          has_dot = (r1 \<noteq> [] \<and> hd r1 = CHR ''.'');
          frac_ds = (if has_dot then takeWhile is_digit (tl r1) else []);
          r2 = (if has_dot then dropWhile is_digit (tl r1) else r1)
      in if int_ds = [] \<and> frac_ds = [] then None
         else case scan_exponent r2 of
                (x, rest) \<Rightarrow> Some (int_of_digits (int_ds @ frac_ds), x - int (length frac_ds), rest))"

definition dec_to_num :: "bool \<Rightarrow> int \<Rightarrow> int \<Rightarrow> jsnum" where
  "dec_to_num neg d x =
     (let v = round_ratio (d * ipow 10 x) (ipow 10 (- x)) in if neg then num_neg v else v)"

definition split_sign :: "string \<Rightarrow> bool \<times> string" where
  "split_sign s =
     (case s of
        [] \<Rightarrow> (False, s)
      | c # t \<Rightarrow> if c = CHR ''-'' then (True, t) else if c = CHR ''+'' then (False, t) else (False, s))"

definition parseFloat :: "string \<Rightarrow> jsnum" where
  "parseFloat s =
     (case split_sign (dropWhile is_ws s) of
        (neg, u) \<Rightarrow>
          if take 8 u = ''Infinity'' then (if neg then NegInf else PosInf)
          else (case scan_decimal u of
                  None \<Rightarrow> NaN
                | Some (d, x, rest) \<Rightarrow> dec_to_num neg d x))"

definition radix_val :: "char \<Rightarrow> int" where
  "radix_val c =
     (if c \<in> set ''0123456789'' then digit_val c
      else if c \<in> set ''abcdefghijklmnopqrstuvwxyz''
        then 10 + int (length (takeWhile (\<lambda>d. d \<noteq> c) ''abcdefghijklmnopqrstuvwxyz''))
      else if c \<in> set ''ABCDEFGHIJKLMNOPQRSTUVWXYZ''
        then 10 + int (length (takeWhile (\<lambda>d. d \<noteq> c) ''ABCDEFGHIJKLMNOPQRSTUVWXYZ''))
      else 36)"

definition int_of_radix :: "int \<Rightarrow> string \<Rightarrow> int" where
  "int_of_radix b ds = foldl (\<lambda>acc c. b * acc + radix_val c) 0 ds"

definition radix_prefix :: "string \<Rightarrow> int option" where
  "radix_prefix s =
     (if take 2 s = ''0x'' \<or> take 2 s = ''0X'' then Some 16
      else if take 2 s = ''0o'' \<or> take 2 s = ''0O'' then Some 8
      else if take 2 s = ''0b'' \<or> take 2 s = ''0B'' then Some 2
      else None)"

text \<open>\<open>Number(s)\<close> for a string: the whole trimmed string must be a numeric literal;
  the empty string is \<open>0\<close>.\<close>

definition string_to_number :: "string \<Rightarrow> jsnum" where
  "string_to_number s =
     (let t = trim s
      in if t = [] then Fin 0 0
         else case radix_prefix t of
                Some b \<Rightarrow>
                  if drop 2 t \<noteq> [] \<and> list_all (\<lambda>c. radix_val c < b) (drop 2 t)
                  then round_ratio (int_of_radix b (drop 2 t)) 1 else NaN
              | None \<Rightarrow>
                  (case split_sign t of
                     (neg, u) \<Rightarrow>
                       if u = ''Infinity'' then (if neg then NegInf else PosInf)
                       else (case scan_decimal u of
                               Some (d, x, []) \<Rightarrow> dec_to_num neg d x
                             | _ \<Rightarrow> NaN)))"

definition to_number :: "json \<Rightarrow> jsnum" where
  "to_number v =
     (case v of
        JUndefined \<Rightarrow> NaN
      | JNull \<Rightarrow> Fin 0 0
      | JBool b \<Rightarrow> (if b then Fin 1 0 else Fin 0 0)
      | JNum n \<Rightarrow> n
      | JStr s \<Rightarrow> string_to_number s
      | JArr vs \<Rightarrow> string_to_number (to_string v)
      | JObj kvs \<Rightarrow> NaN)"

text \<open>\<open>parseInt(v)\<close> without a radix: the longest prefix of digits of \<open>String(v)\<close>, in
  base 16 after \<open>0x\<close>, else in base 10.\<close>

definition parseInt :: "json \<Rightarrow> jsnum" where
  "parseInt v =
     (case split_sign (dropWhile is_ws (to_string v)) of
        (neg, u) \<Rightarrow>
          (let b = (if take 2 u = ''0x'' \<or> take 2 u = ''0X'' then 16 else 10);
               ds = takeWhile (\<lambda>c. radix_val c < b) (if b = 16 then drop 2 u else u);
               n = round_ratio (int_of_radix b ds) 1
           in if ds = [] then NaN else if neg then num_neg n else n))"

subsection \<open>Operators\<close>

text \<open>\<open>a || b\<close>, \<open>a === b\<close> (two objects or arrays of the model are distinct references
  unless stated otherwise, so they compare unequal) and \<open>v.k\<close> on any value for a key
  \<open>k\<close> that no prototype defines.\<close>

definition js_or :: "json \<Rightarrow> json \<Rightarrow> json" where
  "js_or a b = (if truthy a then a else b)"

definition strict_eq :: "json \<Rightarrow> json \<Rightarrow> bool" where
  "strict_eq a b =
     (case a of
        JArr _ \<Rightarrow> False
      | JObj _ \<Rightarrow> False
      | JNum n \<Rightarrow> n \<noteq> NaN \<and> a = b
      | _ \<Rightarrow> a = b)"

definition get_prop :: "json \<Rightarrow> string \<Rightarrow> json" where
  "get_prop v k = (case v of JObj kvs \<Rightarrow> obj_get kvs k | _ \<Rightarrow> JUndefined)"

text \<open>\<open>new TextEncoder().encode(s)\<close>: the UTF-8 bytes of a string of code units below
  256. Bytes are \<^typ>\<open>char\<close>s.\<close>

type_synonym bytes = "char list"

definition utf8_unit :: "char \<Rightarrow> bytes" where
  "utf8_unit c =
     (let n = (of_char c :: int)
      in if n < 128 then [c] else [char_of (192 + n div 64), char_of (128 + n mod 64)])"

definition utf8 :: "string \<Rightarrow> bytes" where
  "utf8 s = concat (map utf8_unit s)"

subsection \<open>\<open>JSON.stringify\<close> (no indentation, no replacer)\<close>

definition hex_digit :: "nat \<Rightarrow> char" where
  "hex_digit d = ''0123456789abcdef'' ! d"

definition json_escape :: "char \<Rightarrow> string" where
  "json_escape c =
     (let n = (of_char c :: int)
      in if n = 0x22 then [CHR 0x5C, CHR 0x22]
         else if n = 0x5C then [CHR 0x5C, CHR 0x5C]
         else if n = 0x08 then [CHR 0x5C, CHR ''b'']
         else if n = 0x0C then [CHR 0x5C, CHR ''f'']
         else if n = 0x0A then [CHR 0x5C, CHR ''n'']
         else if n = 0x0D then [CHR 0x5C, CHR ''r'']
         else if n = 0x09 then [CHR 0x5C, CHR ''t'']
         else if n < 0x20 then [CHR 0x5C, CHR ''u'', CHR ''0'', CHR ''0'', hex_digit (nat (n div 16)), hex_digit (nat (n mod 16))]
         else [c])"

definition json_quote :: "string \<Rightarrow> string" where
  "json_quote s = CHR 0x22 # concat (map json_escape s) @ [CHR 0x22]"

fun join_comma :: "string list \<Rightarrow> string" where
  "join_comma [] = []"
| "join_comma [s] = s"
| "join_comma (s # t # ss) = s @ CHR '','' # join_comma (t # ss)"

text \<open>
  \<open>json_str v\<close> is \<open>None\<close> where \<open>JSON.stringify\<close> yields \<open>undefined\<close>. A property whose
  value is \<open>undefined\<close> is left out of an object; an \<open>undefined\<close> array element prints
  as \<open>null\<close>, as does a Number that is not finite.
\<close>

fun json_str :: "json \<Rightarrow> string option"
  and json_members :: "(string \<times> json) list \<Rightarrow> string list"
  and json_elems :: "json list \<Rightarrow> string list"
where
  "json_str JUndefined = None"
| "json_str JNull = Some ''null''"
| "json_str (JBool b) = Some (if b then ''true'' else ''false'')"
| "json_str (JNum n) = Some (case n of Fin m e \<Rightarrow> num_to_string n | _ \<Rightarrow> ''null'')"
| "json_str (JStr s) = Some (json_quote s)"
| "json_str (JArr vs) = Some (CHR ''['' # join_comma (json_elems vs) @ '']'')"
| "json_str (JObj kvs) = Some (CHR ''{'' # join_comma (json_members kvs) @ ''}'')"
| "json_members [] = []"
| "json_members ((k, v) # kvs) =
     (case json_str v of
        None \<Rightarrow> json_members kvs
      | Some s \<Rightarrow> (json_quote k @ CHR '':'' # s) # json_members kvs)"
| "json_elems [] = []"
| "json_elems (v # vs) = (case json_str v of None \<Rightarrow> ''null'' | Some s \<Rightarrow> s) # json_elems vs"

text \<open>\<open>JSON.stringify\<close> applied to an object, which always yields a string.\<close>

definition stringify_object :: "(string \<times> json) list \<Rightarrow> string" where
  "stringify_object kvs = CHR ''{'' # join_comma (json_members kvs) @ ''}''"

text \<open>The JSON text of a value that has one.\<close>

definition json_text :: "json \<Rightarrow> string" where
  "json_text v = (case json_str v of None \<Rightarrow> [] | Some s \<Rightarrow> s)"

section \<open>Errors and platform capabilities\<close>

text \<open>A thrown value is an error object with its \<open>message\<close>; \<open>Inl\<close> of a result is a
  throw (or the rejection of an awaited promise).\<close>

datatype js_error =
    Error string
  | TypeError string
  | SyntaxError string
  | RangeError string
  | InvalidCharacterError string

fun err_message :: "js_error \<Rightarrow> string" where
  "err_message (Error m) = m"
| "err_message (TypeError m) = m"
| "err_message (SyntaxError m) = m"
| "err_message (RangeError m) = m"
| "err_message (InvalidCharacterError m) = m"

text \<open>The \<open>TypeError\<close>s of the engine for reading a property of \<open>undefined\<close> or \<open>null\<close>,
  for destructuring one of them, and for assigning a property to a primitive in strict
  code.\<close>

definition nullish_name :: "json \<Rightarrow> string" where
  "nullish_name v = (if v = JNull then ''null'' else ''undefined'')"

definition cannot_read :: "json \<Rightarrow> string \<Rightarrow> js_error" where
  "cannot_read v p =
     TypeError (''Cannot read properties of '' @ nullish_name v @ '' (reading '' @ [CHR 0x27] @ p
                  @ [CHR 0x27] @ '')'')"

definition cannot_create :: "json \<Rightarrow> string \<Rightarrow> js_error" where
  "cannot_create v p =
     TypeError (''Cannot create property '' @ [CHR 0x27] @ p @ [CHR 0x27] @ '' on ''
                  @ (case v of JStr _ \<Rightarrow> ''string'' | JNum _ \<Rightarrow> ''number''
                     | JBool _ \<Rightarrow> ''boolean'' | _ \<Rightarrow> ''object'')
                  @ '' '' @ [CHR 0x27] @ to_string v @ [CHR 0x27])"

definition cannot_destructure :: "json \<Rightarrow> string \<Rightarrow> string \<Rightarrow> js_error" where
  "cannot_destructure v p name =
     TypeError (''Cannot destructure property '' @ [CHR 0x27] @ p @ [CHR 0x27] @ '' of ''
                  @ [CHR 0x27] @ name @ [CHR 0x27] @ '' as it is '' @ nullish_name v @ ''.'')"

text \<open>
  What the program takes from its platform and from the modules it imports:
  \<open>atob\<close> (\<open>None\<close> where it throws) and \<open>btoa\<close>; \<open>crypto.subtle.digest('SHA-256', _)\<close>;
  the three functions of \<open>tweetnacl\<close> that are called, without their argument-size
  checks, which \<open>nacl_fromSeed\<close>, \<open>nacl_sign_detached\<close> and \<open>nacl_verify\<close> below add;
  \<open>decryptSession\<close> of \<open>utils/crypto\<close>; and \<open>JSON.parse\<close> (\<open>None\<close> where it throws).
\<close>

record platform =
  atob :: "string \<Rightarrow> string option"
  btoa :: "string \<Rightarrow> string"
  sha256 :: "bytes \<Rightarrow> bytes"
  sign_detached :: "bytes \<Rightarrow> bytes \<Rightarrow> bytes"
  verify_detached :: "bytes \<Rightarrow> bytes \<Rightarrow> bytes \<Rightarrow> bool"
  keyPair_fromSeed :: "bytes \<Rightarrow> bytes \<times> bytes"
  decryptSession :: "json \<Rightarrow> json \<Rightarrow> js_error + json"
  JSON_parse :: "string \<Rightarrow> json option"

definition atob_error :: js_error where
  "atob_error = InvalidCharacterError ''The string to be decoded is not correctly encoded.''"

text \<open>\<open>nacl.sign.keyPair.fromSeed(seed)\<close> yields \<open>(publicKey, secretKey)\<close>.\<close>

definition nacl_fromSeed :: "('a platform_scheme) \<Rightarrow> bytes \<Rightarrow> js_error + bytes \<times> bytes" where
  "nacl_fromSeed P seed =
     (if length seed \<noteq> 32 then Inl (Error ''bad seed size'') else Inr (keyPair_fromSeed P seed))"

definition nacl_sign_detached :: "('a platform_scheme) \<Rightarrow> bytes \<Rightarrow> bytes \<Rightarrow> js_error + bytes" where
  "nacl_sign_detached P msg secretKey =
     (if length secretKey \<noteq> 64 then Inl (Error ''bad secret key size'')
      else Inr (sign_detached P msg secretKey))"

definition nacl_verify :: "('a platform_scheme) \<Rightarrow> bytes \<Rightarrow> bytes \<Rightarrow> bytes \<Rightarrow> js_error + bool" where
  "nacl_verify P msg sig publicKey =
     (if length sig \<noteq> 64 then Inl (Error ''bad signature size'')
      else if length publicKey \<noteq> 32 then Inl (Error ''bad public key size'')
      else Inr (verify_detached P msg sig publicKey))"

section \<open>The message format layer (\<open>src/utils/osm1.js\<close>)\<close>

definition OSM_VERSION :: string where
  "OSM_VERSION = ''OSM-1''"

definition MESSAGE_PREFIX :: string where
  "MESSAGE_PREFIX = CHR 0x19 # ''Octra Signed Message:'' @ [CHR 0x0A]"

definition BASE58_ALPHABET :: string where
  "BASE58_ALPHABET = ''123456789ABCDEFGHJKLMNPQRSTUVWXYZabcdefghijkmnopqrstuvwxyz''"

text \<open>
  \<open>serializePayload\<close>: the keys of the payload are sorted, the properties whose value
  is not \<open>undefined\<close> are assigned to a fresh object in that order, and the object is
  printed by \<open>JSON.stringify\<close>.
\<close>

definition copy_defined ::
  "(string \<times> json) list \<Rightarrow> (string \<times> json) list \<Rightarrow> string \<Rightarrow> (string \<times> json) list" where
  "copy_defined payload acc key =
     (if obj_get payload key \<noteq> JUndefined then obj_set acc key (obj_get payload key) else acc)"

definition sortedPayload :: "(string \<times> json) list \<Rightarrow> (string \<times> json) list" where
  "sortedPayload payload = foldl (copy_defined payload) [] (sort (map fst payload))"

definition serializePayload :: "(string \<times> json) list \<Rightarrow> string" where
  "serializePayload payload = stringify_object (sortedPayload payload)"

definition createSigningMessage :: "(string \<times> json) list \<Rightarrow> string" where
  "createSigningMessage payload =
     (let serialized = serializePayload payload
      in MESSAGE_PREFIX @ dec_nat (length serialized) @ [CHR 0x0A] @ serialized)"

text \<open>\<open>base58Encode\<close>: the bytes as one big-endian number in base 58, and a \<open>1\<close> for
  every leading zero byte.\<close>

function base58_digits :: "int \<Rightarrow> string \<Rightarrow> string" where
  "base58_digits num encoded =
     (if 0 < num then base58_digits (num div 58) (BASE58_ALPHABET ! nat (num mod 58) # encoded)
      else encoded)"
  by pat_completeness auto
termination
  by (relation "measure (\<lambda>(num, encoded). nat num)") auto

declare base58_digits.simps [simp del]

definition base58Encode :: "bytes \<Rightarrow> string" where
  "base58Encode bs =
     (if bs = [] then []
      else replicate (length (takeWhile (\<lambda>b. b = CHR 0x00) bs)) CHR ''1''
             @ base58_digits (foldl (\<lambda>num byte. num * 256 + of_char byte) 0 bs) [])"

text \<open>
  \<open>verifyOSM1Signature(response, nacl, options)\<close>. The envelope is
  \<open>{payload, signature, publicKey, address}\<close> with an object for \<open>payload\<close> and strings
  for \<open>signature\<close> and \<open>publicKey\<close>; \<open>now\<close> is \<open>Date.now()\<close>, an integer of
  milliseconds. An absent option is
  \<open>JUndefined\<close>, and \<open>checkExpiry\<close> then defaults to \<open>true\<close>. Whatever the \<open>try\<close> block
  throws yields \<open>{valid: false, error}\<close>.
\<close>

record signed_message =
  payload :: "(string \<times> json) list"
  signature :: string
  publicKey :: string
  address :: json

record verify_options =
  expectedDomain :: json
  checkExpiry :: json

record validations =
  signatureValid :: bool
  versionValid :: bool
  domainMatch :: bool
  notExpired :: bool
  addressMatch :: bool

record verify_result =
  valid :: bool
  checks :: "validations option"
  error :: "js_error option"

definition verify_failed :: "js_error \<Rightarrow> verify_result" where
  "verify_failed e = \<lparr>valid = False, checks = None, error = Some e\<rparr>"

definition verifyOSM1Signature ::
  "('a platform_scheme) \<Rightarrow> int \<Rightarrow> signed_message \<Rightarrow> verify_options \<Rightarrow> verify_result" where
  "verifyOSM1Signature P now response options =
     (let check_expiry = (if checkExpiry options = JUndefined then True
                          else truthy (checkExpiry options));
          messageBytes = utf8 (createSigningMessage (payload response))
      in case atob P (signature response) of
           None \<Rightarrow> verify_failed atob_error
         | Some sig \<Rightarrow>
        (case atob P (publicKey response) of
           None \<Rightarrow> verify_failed atob_error
         | Some pk \<Rightarrow>
        (case nacl_verify P messageBytes sig pk of
           Inl e \<Rightarrow> verify_failed e
         | Inr sig_ok \<Rightarrow>
             (let v = \<lparr>signatureValid = sig_ok,
                       versionValid =
                         strict_eq (obj_get (payload response) ''version'') (JStr OSM_VERSION),
                       domainMatch =
                         (\<not> truthy (expectedDomain options) \<or>
                          strict_eq (obj_get (payload response) ''domain'') (expectedDomain options)),
                       notExpired =
                         (\<not> check_expiry \<or>
                          \<not> truthy (obj_get (payload response) ''expiresAt'') \<or>
                          num_less (num_of_int now) (to_number (obj_get (payload response) ''expiresAt''))),
                       addressMatch =
                         strict_eq (JStr (''oct'' @ base58Encode (sha256 P pk))) (address response)\<rparr>
              in \<lparr>valid = (signatureValid v \<and> versionValid v \<and> domainMatch v \<and>
                           notExpired v \<and> addressMatch v),
                  checks = Some v,
                  error = None\<rparr>))))"

subsection \<open>OTX-1: amounts and the transaction payload\<close>

definition MICRO_UNITS :: int where
  "MICRO_UNITS = 1000000"

fun split_on :: "char \<Rightarrow> string \<Rightarrow> string list" where
  "split_on c [] = [[]]"
| "split_on c (x # xs) =
     (if x = c then [] # split_on c xs
      else case split_on c xs of
             [] \<Rightarrow> [[x]]
           | p # ps \<Rightarrow> (x # p) # ps)"

definition padEnd :: "nat \<Rightarrow> char \<Rightarrow> string \<Rightarrow> string" where
  "padEnd n c s = s @ replicate (n - length s) c"

text \<open>\<open>octToMicro(oct)\<close>; \<open>oct.toString()\<close> throws on \<open>undefined\<close> and \<open>null\<close>.\<close>

definition octToMicro :: "json \<Rightarrow> js_error + string" where
  "octToMicro oct =
     (if oct = JUndefined \<or> oct = JNull
      then Inl (cannot_read oct ''toString'')
      else
        (let parts = split_on CHR ''.'' (to_string oct);
             intPart = (case parts of [] \<Rightarrow> [] | p # _ \<Rightarrow> p);
             fracPart = (case parts of p # f # _ \<Rightarrow> f | _ \<Rightarrow> []);
             fracPart' = take 6 (padEnd 6 CHR ''0'' fracPart);
             stripped = dropWhile (\<lambda>c. c = CHR ''0'') (intPart @ fracPart')
         in Inr (if stripped = [] then ''0'' else stripped)))"

text \<open>\<open>BigInt(v)\<close>.\<close>

definition string_to_bigint :: "string \<Rightarrow> js_error + int" where
  "string_to_bigint s =
     (let t = trim s
      in if t = [] then Inr 0
         else case radix_prefix t of
                Some b \<Rightarrow>
                  if drop 2 t \<noteq> [] \<and> list_all (\<lambda>c. radix_val c < b) (drop 2 t)
                  then Inr (int_of_radix b (drop 2 t))
                  else Inl (SyntaxError ''Cannot convert to a BigInt'')
              | None \<Rightarrow>
                  (case split_sign t of
                     (neg, u) \<Rightarrow>
                       if u \<noteq> [] \<and> list_all is_digit u
                       then Inr (if neg then - int_of_digits u else int_of_digits u)
                       else Inl (SyntaxError ''Cannot convert to a BigInt'')))"

definition to_bigint :: "json \<Rightarrow> js_error + int" where
  "to_bigint v =
     (case v of
        JUndefined \<Rightarrow> Inl (TypeError ''Cannot convert undefined to a BigInt'')
      | JNull \<Rightarrow> Inl (TypeError ''Cannot convert null to a BigInt'')
      | JBool b \<Rightarrow> Inr (if b then 1 else 0)
      | JNum n \<Rightarrow>
          (case n of
             Fin m e \<Rightarrow> if 0 \<le> e then Inr (m * 2 ^ nat e)
                        else Inl (RangeError ''The number cannot be converted to a BigInt'')
           | _ \<Rightarrow> Inl (RangeError ''The number cannot be converted to a BigInt''))
      | JStr s \<Rightarrow> string_to_bigint s
      | JArr _ \<Rightarrow> string_to_bigint (to_string v)
      | JObj _ \<Rightarrow> string_to_bigint (to_string v))"

definition microToOct :: "json \<Rightarrow> js_error + jsnum" where
  "microToOct micro =
     (case to_bigint micro of
        Inl e \<Rightarrow> Inl e
      | Inr num \<Rightarrow> Inr (num_div_const (round_ratio num 1) MICRO_UNITS))"

text \<open>\<open>createTransactionPayload(options)\<close>; \<open>now\<close> is \<open>Date.now()\<close>. The result is
  \<open>{payload, message}\<close>.\<close>

record tx_options =
  opt_from :: json
  opt_to :: json
  opt_amount :: json
  opt_nonce :: json
  opt_message :: json

definition is_string :: "json \<Rightarrow> bool" where
  "is_string v = (case v of JStr _ \<Rightarrow> True | _ \<Rightarrow> False)"

definition createTransactionPayload ::
  "int \<Rightarrow> tx_options \<Rightarrow> js_error + (string \<times> json) list \<times> json" where
  "createTransactionPayload now options =
     (let amount = opt_amount options
      in case (if is_string amount then Inr amount
               else case octToMicro amount of Inl e \<Rightarrow> Inl e | Inr s \<Rightarrow> Inr (JStr s)) of
           Inl e \<Rightarrow> Inl e
         | Inr amountMicro \<Rightarrow>
        (case (if is_string amount
               then case microToOct amount of Inl e \<Rightarrow> Inl e | Inr n \<Rightarrow> Inr (JNum n)
               else Inr amount) of
           Inl e \<Rightarrow> Inl e
         | Inr amountNum \<Rightarrow>
             Inr ([(''from'', opt_from options),
                   (''to_'', opt_to options),
                   (''amount'', amountMicro),
                   (''nonce'', JNum (to_number (opt_nonce options))),
                   (''ou'', JStr (if num_less (to_number amountNum) (num_of_int 1000)
                                  then ''1'' else ''3'')),
                   (''timestamp'', JNum (num_div_const (num_of_int now) 1000))],
                  opt_message options)))"

section \<open>Promises and \<open>Map\<close>s\<close>

text \<open>
  A promise is pending until it is settled, and settling it again changes nothing. A
  \<open>Map\<close> keeps its entries in insertion order; \<open>set\<close> on a present key replaces the
  value in place.
\<close>

datatype promise_state = Pending | Resolved json | Rejected json

definition map_set :: "('k \<times> 'v) list \<Rightarrow> 'k \<Rightarrow> 'v \<Rightarrow> ('k \<times> 'v) list" where
  "map_set m k v =
     (if k \<in> set (map fst m) then map (\<lambda>(k', v'). if k' = k then (k', v) else (k', v')) m
      else m @ [(k, v)])"

definition map_delete :: "('k \<times> 'v) list \<Rightarrow> 'k \<Rightarrow> ('k \<times> 'v) list" where
  "map_delete m k = filter (\<lambda>(k', v'). k' \<noteq> k) m"

text \<open>The promises of a state are kept by name; \<open>map_of ps k\<close> is the state of the promise
  named \<open>k\<close>.\<close>

definition settle :: "('k \<times> promise_state) list \<Rightarrow> 'k \<Rightarrow> promise_state \<Rightarrow> ('k \<times> promise_state) list" where
  "settle ps k outcome = (if map_of ps k = Some Pending then map_set ps k outcome else ps)"

section \<open>The in-page provider\<close>

text \<open>
  The state of the injected script: the counter \<open>requestId\<close>, the correlation table
  \<open>pendingRequests\<close>, the promises that \<open>sendRequest\<close> has returned, the messages posted
  to the window, and the timers set by \<open>setTimeout\<close> with the time at which each is due.
  The table maps a request id to the \<open>{resolve, reject}\<close> pair of the promise returned
  for that id; the model names the promise by the id and keeps the keys.
\<close>

record inpage_state =
  requestId :: int
  pendingRequests :: "int list"
  promises :: "(int \<times> promise_state) list"
  posted :: "json list"
  timers :: "(int \<times> int) list"

definition inpage_init :: inpage_state where
  "inpage_init = \<lparr>requestId = 0, pendingRequests = [], promises = [], posted = [], timers = []\<rparr>"

definition REQUEST_TIMEOUT_MS :: int where
  "REQUEST_TIMEOUT_MS = 300000"

definition timeout_error :: json where
  "timeout_error = JObj [(''code'', JNum (num_of_int 4100)), (''message'', JStr ''Request timeout'')]"

text \<open>\<open>sendRequest(method, params)\<close> called at time \<open>now\<close>: the executor of the new
  promise. It yields the id, which names the promise.\<close>

definition sendRequest :: "inpage_state \<Rightarrow> string \<Rightarrow> json \<Rightarrow> int \<Rightarrow> int \<times> inpage_state" where
  "sendRequest s method params now =
     (let rid = requestId s + 1
      in (rid,
          s\<lparr>requestId := rid,
            pendingRequests := (if rid \<in> set (pendingRequests s) then pendingRequests s
                                else pendingRequests s @ [rid]),
            promises := map_set (promises s) rid Pending,
            posted := posted s @
              [JObj [(''type'', JStr ''OCTRA_REQUEST''), (''id'', JNum (num_of_int rid)),
                     (''method'', JStr method), (''params'', params)]],
            timers := timers s @ [(rid, now + REQUEST_TIMEOUT_MS)]\<rparr>))"

text \<open>The callback given to \<open>setTimeout\<close> for request \<open>id\<close>.\<close>

definition timeout_callback :: "inpage_state \<Rightarrow> int \<Rightarrow> inpage_state" where
  "timeout_callback s rid =
     (if rid \<in> set (pendingRequests s)
      then s\<lparr>pendingRequests := removeAll rid (pendingRequests s),
             promises := settle (promises s) rid (Rejected timeout_error)\<rparr>
      else s)"

text \<open>
  The \<open>message\<close> listener. A message is taken with its \<open>event.source === window\<close>
  test, its \<open>type\<close> and its \<open>id\<close>, \<open>result\<close> and \<open>error\<close>; an id that is not a number
  is the id of no entry.
\<close>

record window_message =
  from_window :: bool
  msg_type :: json
  msg_id :: "int option"
  msg_result :: json
  msg_error :: json

definition on_message :: "inpage_state \<Rightarrow> window_message \<Rightarrow> inpage_state" where
  "on_message s ev =
     (if \<not> from_window ev then s
      else if \<not> strict_eq (msg_type ev) (JStr ''OCTRA_RESPONSE'') then s
      else case msg_id ev of
             None \<Rightarrow> s
           | Some rid \<Rightarrow>
               if rid \<in> set (pendingRequests s)
               then s\<lparr>pendingRequests := removeAll rid (pendingRequests s),
                      promises := settle (promises s) rid
                        (if truthy (msg_error ev) then Rejected (msg_error ev)
                         else Resolved (msg_result ev))\<rparr>
               else s)"

text \<open>Time passes to \<open>now\<close>: the timers that are due run, in the order in which they
  were set, and are gone.\<close>

fun run_due :: "int \<Rightarrow> (int \<times> int) list \<Rightarrow> inpage_state \<Rightarrow> inpage_state" where
  "run_due now [] s = s"
| "run_due now ((rid, due) # ts) s =
     (if due \<le> now then run_due now ts (timeout_callback s rid) else run_due now ts s)"

definition advance :: "inpage_state \<Rightarrow> int \<Rightarrow> inpage_state" where
  "advance s now =
     (run_due now (timers s) s)\<lparr>timers := filter (\<lambda>(rid, due). now < due) (timers s)\<rparr>"

datatype inpage_event =
    Call string json int
  | Message window_message
  | Advance int

fun inpage_step :: "inpage_state \<Rightarrow> inpage_event \<Rightarrow> inpage_state" where
  "inpage_step s (Call method params now) = snd (sendRequest s method params now)"
| "inpage_step s (Message ev) = on_message s ev"
| "inpage_step s (Advance now) = advance s now"

definition inpage_run :: "inpage_state \<Rightarrow> inpage_event list \<Rightarrow> inpage_state" where
  "inpage_run s evs = foldl inpage_step s evs"

section \<open>The pending requests of \<open>DappService\<close> (\<open>src/services/DappService.js\<close>)\<close>

text \<open>
  \<open>pendingRequests\<close> maps a request id to \<open>{...request, createdAt: Date.now()}\<close>. The
  entries hold no \<open>resolve\<close> or \<open>reject\<close>: the class keeps requests for the popup to show.
\<close>

record pending_request =
  request :: "(string \<times> json) list"
  createdAt :: int

record dapp_service =
  ds_pendingRequests :: "(string \<times> pending_request) list"

definition addPendingRequest ::
  "dapp_service \<Rightarrow> string \<Rightarrow> (string \<times> json) list \<Rightarrow> int \<Rightarrow> dapp_service" where
  "addPendingRequest d rid req now =
     d\<lparr>ds_pendingRequests :=
         map_set (ds_pendingRequests d) rid \<lparr>request = req, createdAt = now\<rparr>\<rparr>"

definition getPendingRequest :: "dapp_service \<Rightarrow> string \<Rightarrow> pending_request option" where
  "getPendingRequest d rid = map_of (ds_pendingRequests d) rid"

definition removePendingRequest :: "dapp_service \<Rightarrow> string \<Rightarrow> dapp_service" where
  "removePendingRequest d rid = d\<lparr>ds_pendingRequests := map_delete (ds_pendingRequests d) rid\<rparr>"

text \<open>\<open>clearExpiredRequests()\<close> called at time \<open>now\<close>.\<close>

definition expiry :: int where
  "expiry = 5 * 60 * 1000"

definition clearExpiredRequests :: "dapp_service \<Rightarrow> int \<Rightarrow> dapp_service" where
  "clearExpiredRequests d now =
     d\<lparr>ds_pendingRequests :=
         filter (\<lambda>(rid, req). \<not> (now - createdAt req > expiry)) (ds_pendingRequests d)\<rparr>"

section \<open>The background service worker\<close>

text \<open>
  The module state: the \<open>Map\<close>s \<open>dappConnections\<close> and \<open>dappApprovals\<close>, the session cache
  \<open>activeSessionCache\<close> and the in-memory key \<open>memorySessionKey\<close> (both \<open>null\<close> at start).
  An approval holds the \<open>resolve\<close> and \<open>reject\<close> of the promise that \<open>requestApproval\<close>
  returned; the model names that promise by the approval id and keeps its state in
  \<open>approval_promises\<close>. Of the platform the state keeps the value that
  \<open>chrome.storage.session\<close> holds under \<open>dapp_wallet_session\<close> (\<open>JUndefined\<close> for none,
  and whether reading it throws), the last value written to \<open>chrome.storage.local\<close>
  under \<open>dapp_connections\<close>, and the URLs of the windows opened.
\<close>

record approval =
  ap_type :: string
  ap_origin :: string
  ap_params :: json
  ap_wallet :: json
  ap_timestamp :: int

record bg_state =
  dappConnections :: "(string \<times> json) list"
  dappApprovals :: "(string \<times> approval) list"
  approval_promises :: "(string \<times> promise_state) list"
  activeSessionCache :: json
  memorySessionKey :: json
  session_storage :: json
  session_storage_throws :: bool
  saved_connections :: "string option"
  windows :: "string list"

text \<open>The own enumerable properties that \<open>Object.keys\<close> and the spread \<open>{...v}\<close> see.\<close>

definition own_entries :: "json \<Rightarrow> (string \<times> json) list" where
  "own_entries v =
     (case v of
        JObj kvs \<Rightarrow> kvs
      | JStr s \<Rightarrow> zip (map dec_nat [0..<length s]) (map (\<lambda>c. JStr [c]) s)
      | JArr vs \<Rightarrow> zip (map dec_nat [0..<length vs]) vs
      | _ \<Rightarrow> [])"

text \<open>\<open>getWalletFromStorage()\<close> yields the wallet, or \<open>null\<close> for "locked", and the
  state with the cache filled.\<close>

definition load_session :: "('a platform_scheme) \<Rightarrow> bg_state \<Rightarrow> json \<times> bg_state" where
  "load_session P s =
     (if truthy (activeSessionCache s) then (activeSessionCache s, s)
      else if session_storage_throws s then (activeSessionCache s, s)
      else if truthy (session_storage s) then
        (case JSON_parse P (to_string (session_storage s)) of
           None \<Rightarrow> (activeSessionCache s, s)
         | Some session \<Rightarrow> (session, s\<lparr>activeSessionCache := session\<rparr>))
      else (activeSessionCache s, s))"

definition legacy_fallback :: "json \<Rightarrow> json" where
  "legacy_fallback session =
     (if truthy session \<and>
         (truthy (get_prop session ''privateKey'') \<or> truthy (get_prop session ''privateKeyB64''))
      then session else JNull)"

definition getWalletFromStorage :: "('a platform_scheme) \<Rightarrow> bg_state \<Rightarrow> json \<times> bg_state" where
  "getWalletFromStorage P s =
     (case load_session P s of
        (session, s') \<Rightarrow>
          if truthy session \<and> truthy (get_prop session ''encryptedPrivateKey'') \<and>
             truthy (memorySessionKey s')
          then (case decryptSession P (get_prop session ''encryptedPrivateKey'') (memorySessionKey s') of
                  Inl e \<Rightarrow> (legacy_fallback session, s')
                | Inr plaintextKey \<Rightarrow>
                    if truthy plaintextKey
                    then (JObj (obj_set (obj_set (own_entries session) ''privateKey'' plaintextKey)
                                  ''privateKeyB64'' plaintextKey), s')
                    else (legacy_fallback session, s'))
          else (legacy_fallback session, s'))"

definition has_key :: "json \<Rightarrow> bool" where
  "has_key wallet =
     (truthy (get_prop wallet ''privateKey'') \<or> truthy (get_prop wallet ''privateKeyB64''))"

text \<open>\<open>handleSyncSession(data)\<close>.\<close>

definition handleSyncSession :: "('a platform_scheme) \<Rightarrow> bg_state \<Rightarrow> json \<Rightarrow> json \<times> bg_state" where
  "handleSyncSession P s data =
     (if truthy (get_prop data ''sessionKey'') then
        (let s1 = s\<lparr>memorySessionKey := get_prop data ''sessionKey''\<rparr>
         in (JObj [(''success'', JBool True)],
             if truthy (session_storage s1) then
               (case JSON_parse P (to_string (session_storage s1)) of
                  None \<Rightarrow> s1
                | Some session \<Rightarrow> s1\<lparr>activeSessionCache := session\<rparr>)
             else s1))
      else if truthy (get_prop data ''session'')
        then (JObj [(''success'', JBool True)], s\<lparr>activeSessionCache := get_prop data ''session''\<rparr>)
      else (JObj [(''success'', JBool True)], s))"

text \<open>\<open>saveConnections()\<close>.\<close>

definition saveConnections :: "bg_state \<Rightarrow> bg_state" where
  "saveConnections s =
     s\<lparr>saved_connections :=
         Some (stringify_object (foldl (\<lambda>obj (k, v). obj_set obj k v) [] (dappConnections s)))\<rparr>"

text \<open>\<open>requestApproval(origin, type, params, wallet)\<close>, with the value \<open>uuid\<close> of
  \<open>crypto.randomUUID()\<close> and the time \<open>now\<close>: the approval is stored and the popup
  opened; the promise returned is pending.\<close>

definition requestApproval ::
  "bg_state \<Rightarrow> string \<Rightarrow> string \<Rightarrow> json \<Rightarrow> json \<Rightarrow> string \<Rightarrow> int \<Rightarrow> bg_state" where
  "requestApproval s origin type params wallet uuid now =
     s\<lparr>dappApprovals :=
         map_set (dappApprovals s) uuid
           \<lparr>ap_type = type, ap_origin = origin, ap_params = params, ap_wallet = wallet,
            ap_timestamp = now\<rparr>,
       approval_promises := map_set (approval_promises s) uuid Pending,
       windows := windows s @ [''index.html#/dapp/approve?id='' @ uuid]\<rparr>"

text \<open>
  A handler that awaits an approval runs in two parts: up to the \<open>await\<close>, where it
  either returns its response or waits for the promise of an approval id, and from the
  settlement of that promise (\<open>Inr\<close> its value, \<open>Inl\<close> the value it was rejected with).
\<close>

datatype handler_step = Return json | Await string

definition not_connected :: json where
  "not_connected = JObj [(''error'', JObj [(''code'', JNum (num_of_int 4100)), (''message'', JStr ''Not connected'')])]"

definition is_connected :: "bg_state \<Rightarrow> string \<Rightarrow> bool" where
  "is_connected s origin =
     (case map_of (dappConnections s) origin of
        None \<Rightarrow> False
      | Some connection \<Rightarrow> truthy connection \<and> truthy (get_prop connection ''connected''))"

definition handleConnect_start ::
  "('a platform_scheme) \<Rightarrow> bg_state \<Rightarrow> string \<Rightarrow> json \<Rightarrow> json \<Rightarrow> string \<Rightarrow> int \<Rightarrow> handler_step \<times> bg_state" where
  "handleConnect_start P s origin title favicon uuid now =
     (if is_connected s origin then
        (let existing = (case map_of (dappConnections s) origin of None \<Rightarrow> JUndefined | Some c \<Rightarrow> c)
         in (Return (JObj [(''result'', JObj
               [(''accounts'', JArr [get_prop existing ''address'']),
                (''selectedAddress'', get_prop existing ''address''),
                (''networkId'', js_or (get_prop existing ''networkId'') (JStr ''testnet'')),
                (''chainId'', js_or (get_prop existing ''chainId'') (JNum (num_of_int 2)))])]), s))
      else
        (case getWalletFromStorage P s of
           (wallet, s1) \<Rightarrow>
             (Await uuid,
              requestApproval s1 origin ''connect'' (JObj [(''title'', title), (''favicon'', favicon)])
                wallet uuid now)))"

definition handleConnect_resume ::
  "('a platform_scheme) \<Rightarrow> bg_state \<Rightarrow> string \<Rightarrow> json \<Rightarrow> json \<Rightarrow> json + json \<Rightarrow> int \<Rightarrow> json \<times> bg_state" where
  "handleConnect_resume P s origin title favicon outcome now =
     (case outcome of
        Inl err \<Rightarrow>
          (JObj [(''error'', JObj
             [(''code'', js_or (get_prop err ''code'') (JNum (num_of_int 4001))),
              (''message'', js_or (get_prop err ''message'') (JStr ''User rejected connection request''))])], s)
      | Inr v \<Rightarrow>
          (case getWalletFromStorage P s of
             (wallet, s1) \<Rightarrow>
               if \<not> truthy wallet \<or> \<not> has_key wallet
               then (JObj [(''error'', JStr ''Wallet still locked'')], s1)
               else
                 (let connection = JObj
                        [(''origin'', JStr origin), (''title'', title), (''favicon'', favicon),
                         (''address'', get_prop wallet ''address''), (''connected'', JBool True),
                         (''connectedAt'', JNum (num_of_int now)), (''networkId'', JStr ''mainnet''),
                         (''chainId'', JNum (num_of_int 2))]
                  in (JObj [(''result'', JObj
                        [(''accounts'', JArr [get_prop wallet ''address'']),
                         (''selectedAddress'', get_prop wallet ''address''),
                         (''publicKey'', get_prop wallet ''publicKeyB64''),
                         (''networkId'', JStr ''mainnet''),
                         (''chainId'', JNum (num_of_int 2)),
                         (''permissions'', JArr [JStr ''sign'', JStr ''balance''])])],
                      saveConnections
                        (s1\<lparr>dappConnections := map_set (dappConnections s1) origin connection\<rparr>)))))"

text \<open>\<open>handleDisconnect(origin)\<close> and \<open>handleGetAccounts(origin)\<close>.\<close>

definition handleDisconnect :: "bg_state \<Rightarrow> string \<Rightarrow> json \<times> bg_state" where
  "handleDisconnect s origin =
     (JObj [(''result'', JBool True)],
      saveConnections (s\<lparr>dappConnections := map_delete (dappConnections s) origin\<rparr>))"

definition handleGetAccounts :: "bg_state \<Rightarrow> string \<Rightarrow> json" where
  "handleGetAccounts s origin =
     (if \<not> is_connected s origin then JObj [(''result'', JArr [])]
      else JObj [(''result'', JArr [get_prop (case map_of (dappConnections s) origin of
                                              None \<Rightarrow> JUndefined | Some c \<Rightarrow> c) ''address''])])"

subsection \<open>Signing\<close>

text \<open>
  \<open>signMessageWithKey(payload, privateKeyB64)\<close>. \<open>Object.keys\<close> throws on \<open>undefined\<close> and
  \<open>null\<close>; the key is decoded by \<open>atob\<close>, and a 32-byte key is a seed.
\<close>

definition signMessageWithKey :: "('a platform_scheme) \<Rightarrow> json \<Rightarrow> json \<Rightarrow> js_error + string" where
  "signMessageWithKey P payload' privateKeyB64 =
     (case atob P (to_string privateKeyB64) of
        None \<Rightarrow> Inl atob_error
      | Some privateKeyBytes \<Rightarrow>
     (case (if length privateKeyBytes = 32
            then (case nacl_fromSeed P privateKeyBytes of
                    Inl e \<Rightarrow> Inl e
                  | Inr (pk, sk) \<Rightarrow> Inr sk)
            else Inr privateKeyBytes) of
        Inl e \<Rightarrow> Inl e
      | Inr secretKey \<Rightarrow>
          if payload' = JUndefined \<or> payload' = JNull
          then Inl (TypeError ''Cannot convert undefined or null to object'')
          else
            (let serialized = stringify_object (sortedPayload (own_entries payload'));
                 fullMessage = CHR 0x19 # ''Octra Signed Message:'' @ [CHR 0x0A]
                                 @ dec_nat (length serialized) @ [CHR 0x0A] @ serialized
             in case nacl_sign_detached P (utf8 fullMessage) secretKey of
                  Inl e \<Rightarrow> Inl e
                | Inr signatureBytes \<Rightarrow> Inr (btoa P signatureBytes))))"

text \<open>
  \<open>signTransactionOnly(params, wallet)\<close>; reading \<open>wallet.privateKey\<close> and then
  \<open>params.transaction\<close> throws on \<open>undefined\<close> and \<open>null\<close>. \<open>now\<close> is the \<open>Date.now()\<close> read for a falsy
  nonce and \<open>now'\<close> the one read for the timestamp. \<open>tx_object\<close> is the object \<open>tx\<close>
  with its optional \<open>message\<close>, and \<open>tx_sign_payload\<close> the string \<open>signPayload\<close>, whose
  UTF-8 bytes are signed.
\<close>

definition tx_params :: "json \<Rightarrow> json" where
  "tx_params params = js_or (get_prop params ''transaction'') params"

definition tx_amount :: "json \<Rightarrow> json" where
  "tx_amount txParams =
     (let amount = (case get_prop txParams ''amount'' of
                      JStr a \<Rightarrow> a
                    | v \<Rightarrow> to_string v)
      in if truthy (get_prop txParams ''amountRaw'') then get_prop txParams ''amountRaw''
         else JStr (num_to_string (math_floor (num_times (parseFloat amount) (num_of_int 1000000)))))"

definition tx_ou :: "json \<Rightarrow> json" where
  "tx_ou txParams =
     (if truthy (get_prop txParams ''fee'')
      then JStr (num_to_string (math_floor (num_times (to_number (get_prop txParams ''fee''))
                                              (num_of_int 1000000))))
      else JStr ''2000'')"

definition tx_fields :: "int \<Rightarrow> int \<Rightarrow> json \<Rightarrow> json \<Rightarrow> (string \<times> json) list" where
  "tx_fields now now' txParams wallet =
     [(''from'', get_prop wallet ''address''),
      (''to_'', get_prop txParams ''to''),
      (''amount'', tx_amount txParams),
      (''nonce'', JNum (to_number (js_or (get_prop txParams ''nonce'') (JNum (num_of_int now))))),
      (''ou'', tx_ou txParams),
      (''timestamp'', JNum (num_div_const (num_of_int now') 1000))]"

definition tx_sign_payload :: "(string \<times> json) list \<Rightarrow> string" where
  "tx_sign_payload tx =
     stringify_object
       [(''from'', obj_get tx ''from''),
        (''to_'', obj_get tx ''to_''),
        (''amount'', obj_get tx ''amount''),
        (''nonce'', obj_get tx ''nonce''),
        (''ou'', obj_get tx ''ou''),
        (''timestamp'', obj_get tx ''timestamp'')]"

definition tx_object :: "int \<Rightarrow> int \<Rightarrow> json \<Rightarrow> json \<Rightarrow> (string \<times> json) list" where
  "tx_object now now' params wallet =
     (if truthy (get_prop (tx_params params) ''message'')
      then tx_fields now now' (tx_params params) wallet
             @ [(''message'', get_prop (tx_params params) ''message'')]
      else tx_fields now now' (tx_params params) wallet)"

definition signTransactionOnly ::
  "('a platform_scheme) \<Rightarrow> int \<Rightarrow> int \<Rightarrow> json \<Rightarrow> json \<Rightarrow> js_error + (string \<times> json) list" where
  "signTransactionOnly P now now' params wallet =
     (if wallet = JUndefined \<or> wallet = JNull
      then Inl (cannot_read wallet ''privateKey'')
      else if params = JUndefined \<or> params = JNull
      then Inl (cannot_read params ''transaction'')
      else
      let privateKey = js_or (get_prop wallet ''privateKey'') (get_prop wallet ''privateKeyB64'');
          tx = tx_object now now' params wallet;
          signPayload = tx_sign_payload tx
      in if \<not> truthy (obj_get tx ''from'') \<or> \<not> truthy (obj_get tx ''to_'')
         then Inl (Error ''Invalid transaction parameters: From and To are required'')
         else if obj_get tx ''nonce'' = JNum NaN then Inl (Error ''Invalid nonce'')
         else case atob P (to_string privateKey) of
                None \<Rightarrow> Inl atob_error
              | Some seedBytes \<Rightarrow>
             (case nacl_fromSeed P seedBytes of
                Inl e \<Rightarrow> Inl e
              | Inr (pk, sk) \<Rightarrow>
             (case nacl_sign_detached P (utf8 signPayload) sk of
                Inl e \<Rightarrow> Inl e
              | Inr signatureBytes \<Rightarrow>
                  Inr (tx @ [(''signature'', JStr (btoa P signatureBytes)),
                             (''public_key'', get_prop wallet ''publicKeyB64'')]))))"

text \<open>
  \<open>signAndBroadcastTransaction(params, wallet)\<close>. The answer of the node to the
  \<open>POST\<close> is \<open>None\<close> where \<open>fetch\<close> throws.
\<close>

record http_response =
  resp_ok :: bool
  resp_status :: int
  resp_statusText :: string
  resp_text :: string

definition parsed_object :: "('a platform_scheme) \<Rightarrow> string \<Rightarrow> json option" where
  "parsed_object P text =
     (case JSON_parse P text of
        None \<Rightarrow> None
      | Some v \<Rightarrow> if v = JNull then None else Some v)"

definition starts_with_ok :: "string \<Rightarrow> bool" where
  "starts_with_ok text = (take 2 text \<in> {''ok'', ''OK'', ''Ok'', ''oK''})"

definition hash_of_text :: "string \<Rightarrow> string" where
  "hash_of_text text =
     (if starts_with_ok text then rev (takeWhile (\<lambda>c. \<not> is_ws c) (rev text)) else text)"

definition signAndBroadcastTransaction ::
  "('a platform_scheme) \<Rightarrow> http_response option \<Rightarrow> int \<Rightarrow> int \<Rightarrow> json \<Rightarrow> json \<Rightarrow> js_error + json" where
  "signAndBroadcastTransaction P net now now' params wallet =
     (case signTransactionOnly P now now' params wallet of
        Inl e \<Rightarrow> Inl e
      | Inr signedTransaction \<Rightarrow>
     (case net of
        None \<Rightarrow> Inl (TypeError ''Failed to fetch'')
      | Some r \<Rightarrow>
          if \<not> resp_ok r then
            Inl (Error
              (case parsed_object P (resp_text r) of
                 None \<Rightarrow> if resp_text r \<noteq> [] then resp_text r
                          else ''Broadcast failed: '' @ to_string (JNum (num_of_int (resp_status r)))
                                 @ '' '' @ resp_statusText r
               | Some j \<Rightarrow> if truthy (get_prop j ''error'') then to_string (get_prop j ''error'')
                            else ''Broadcast failed: '' @ to_string (JNum (num_of_int (resp_status r)))
                                   @ '' '' @ resp_statusText r))
          else
            Inr (JObj
              [(''signedTransaction'', JObj signedTransaction),
               (''txHash'',
                  (case parsed_object P (resp_text r) of
                     None \<Rightarrow> JStr (hash_of_text (resp_text r))
                   | Some j \<Rightarrow>
                       if strict_eq (get_prop j ''status'') (JStr ''accepted'') \<or> truthy (get_prop j ''tx_hash'')
                       then get_prop j ''tx_hash''
                       else if truthy (get_prop j ''error'') then JStr (hash_of_text (resp_text r))
                       else JStr [])),
               (''broadcast'', JBool True)])))"

subsection \<open>Nonce auto-fill\<close>

text \<open>
  \<open>ensureNonce(txParams, address)\<close> assigns \<open>txParams.nonce\<close> where it is \<open>undefined\<close> or
  \<open>null\<close>. The answer of the balance endpoint is one of: \<open>fetch\<close> throws, the response
  is not \<open>ok\<close>, its body is not JSON, or its body is a JSON value.
\<close>

datatype balance_response = BalanceThrows | BalanceNotOk | BalanceBadJson | BalanceJson json

definition ensureNonce :: "balance_response \<Rightarrow> int \<Rightarrow> (string \<times> json) list \<Rightarrow> (string \<times> json) list" where
  "ensureNonce net now txParams =
     (if obj_get txParams ''nonce'' = JUndefined \<or> obj_get txParams ''nonce'' = JNull then
        (case net of
           BalanceJson body \<Rightarrow>
             if body = JNull then obj_set txParams ''nonce'' (JNum (num_of_int now))
             else obj_set txParams ''nonce''
                    (JNum (num_succ (parseInt (js_or (get_prop body ''nonce'') (JNum (Fin 0 0))))))
         | _ \<Rightarrow> obj_set txParams ''nonce'' (JNum (num_of_int now)))
      else txParams)"

subsection \<open>The handlers of the signing requests\<close>

definition error_response :: "string \<Rightarrow> json" where
  "error_response msg = JObj [(''error'', JStr msg)]"

definition rejection :: "int \<Rightarrow> json \<Rightarrow> json" where
  "rejection code msg = JObj [(''code'', JNum (num_of_int code)), (''message'', msg)]"

text \<open>
  A handler may also throw, which rejects the promise that it returns to the message
  listener.
\<close>

datatype handler_outcome = Done handler_step | Throws js_error

definition handleSignMessage_start ::
  "('a platform_scheme) \<Rightarrow> bg_state \<Rightarrow> string \<Rightarrow> json \<Rightarrow> string \<Rightarrow> int \<Rightarrow> handler_outcome \<times> bg_state" where
  "handleSignMessage_start P s origin params uuid now =
     (if \<not> is_connected s origin then (Done (Return not_connected), s)
      else if params = JUndefined \<or> params = JNull
        then (Throws (cannot_destructure params ''payload'' ''params''), s)
      else case getWalletFromStorage P s of
             (wallet, s1) \<Rightarrow>
               if \<not> truthy wallet then (Done (Return (error_response ''Wallet not found'')), s1)
               else if \<not> has_key wallet
                 then (Done (Return (error_response ''Wallet locked. Please unlock.'')), s1)
               else (Done (Await uuid), requestApproval s1 origin ''signMessage'' params wallet uuid now))"

definition handleSignMessage_resume :: "json + json \<Rightarrow> json" where
  "handleSignMessage_resume outcome =
     (case outcome of
        Inr r \<Rightarrow> JObj [(''result'', get_prop r ''result'')]
      | Inl err \<Rightarrow> JObj [(''error'', rejection 4001 (JStr ''User rejected message signing''))])"

text \<open>
  \<open>handleSignTransaction\<close> and \<open>handleSendTransaction\<close> differ in their texts and in
  the type of the approval. \<open>ensureNonce\<close> assigns to the object \<open>txParams\<close>, which
  is \<open>params.transaction\<close> or \<open>params\<close> itself; the assignment throws on a primitive,
  and an array that receives the property is kept as the object of its entries.
\<close>

definition tx_target :: "json \<Rightarrow> js_error + (string \<times> json) list" where
  "tx_target txParams =
     (case txParams of
        JObj kvs \<Rightarrow> Inr kvs
      | JArr vs \<Rightarrow> Inr (own_entries txParams)
      | _ \<Rightarrow> Inl (cannot_create txParams ''nonce''))"

definition with_nonce :: "balance_response \<Rightarrow> int \<Rightarrow> json \<Rightarrow> js_error + json" where
  "with_nonce net now params =
     (let txParams = tx_params params
      in if get_prop txParams ''nonce'' = JUndefined \<or> get_prop txParams ''nonce'' = JNull then
           (case tx_target txParams of
              Inl e \<Rightarrow> Inl e
            | Inr kvs \<Rightarrow>
                if truthy (get_prop params ''transaction'')
                then Inr (JObj (obj_set (own_entries params) ''transaction''
                                  (JObj (ensureNonce net now kvs))))
                else Inr (JObj (ensureNonce net now kvs)))
         else Inr params)"

definition handle_tx_start ::
  "string \<Rightarrow> string \<Rightarrow> ('a platform_scheme) \<Rightarrow> balance_response \<Rightarrow> bg_state \<Rightarrow> string \<Rightarrow> json \<Rightarrow> string \<Rightarrow> int
     \<Rightarrow> handler_outcome \<times> bg_state" where
  "handle_tx_start type locked_text P net s origin params uuid now =
     (if \<not> is_connected s origin then (Done (Return not_connected), s)
      else case getWalletFromStorage P s of
             (wallet, s1) \<Rightarrow>
               if \<not> truthy wallet
                 then (Done (Return (error_response ''Wallet not found. Please connect first.'')), s1)
               else if \<not> has_key wallet then (Done (Return (error_response locked_text)), s1)
               else if params = JUndefined \<or> params = JNull
                 then (Throws (cannot_read params ''transaction''), s1)
               else case with_nonce net now params of
                      Inl e \<Rightarrow> (Throws e, s1)
                    | Inr params' \<Rightarrow>
                        (Done (Await uuid), requestApproval s1 origin type params' wallet uuid now))"

definition handleSignTransaction_start ::
  "('a platform_scheme) \<Rightarrow> balance_response \<Rightarrow> bg_state \<Rightarrow> string \<Rightarrow> json \<Rightarrow> string \<Rightarrow> int
     \<Rightarrow> handler_outcome \<times> bg_state" where
  "handleSignTransaction_start =
     handle_tx_start ''signTransaction'' ''Wallet locked. Please unlock to sign transaction.''"

definition handleSendTransaction_start ::
  "('a platform_scheme) \<Rightarrow> balance_response \<Rightarrow> bg_state \<Rightarrow> string \<Rightarrow> json \<Rightarrow> string \<Rightarrow> int
     \<Rightarrow> handler_outcome \<times> bg_state" where
  "handleSendTransaction_start =
     handle_tx_start ''sendTransaction'' ''Wallet locked. Please unlock to send transaction.''"

definition handle_tx_resume :: "string \<Rightarrow> json + json \<Rightarrow> json" where
  "handle_tx_resume rejected_text outcome =
     (case outcome of
        Inr r \<Rightarrow> r
      | Inl err \<Rightarrow>
          JObj [(''error'', rejection 4001 (js_or (get_prop err ''message'') (JStr rejected_text)))])"

definition handleSignTransaction_resume :: "json + json \<Rightarrow> json" where
  "handleSignTransaction_resume = handle_tx_resume ''User rejected signature''"

definition handleSendTransaction_resume :: "json + json \<Rightarrow> json" where
  "handleSendTransaction_resume = handle_tx_resume ''User rejected transaction''"

subsection \<open>\<open>handleResolveApproval(data)\<close>\<close>

text \<open>The wallet to sign with: the one stored with the approval if it has a key, else
  a fresh one.\<close>

definition signing_wallet :: "('a platform_scheme) \<Rightarrow> bg_state \<Rightarrow> approval \<Rightarrow> (js_error + json) \<times> bg_state" where
  "signing_wallet P s ap =
     (let stored = js_or (ap_wallet ap) (JObj [])
      in if has_key stored then (Inr stored, s)
         else case getWalletFromStorage P s of
                (freshWallet, s') \<Rightarrow>
                  if truthy freshWallet \<and> has_key freshWallet then (Inr freshWallet, s')
                  else (Inl (Error ''Wallet is locked. Please unlock the extension.''), s'))"

text \<open>The action of an approved request: the value that \<open>approval.resolve\<close> receives,
  or what the \<open>try\<close> block throws.\<close>

definition approved_action ::
  "('a platform_scheme) \<Rightarrow> http_response option \<Rightarrow> int \<Rightarrow> int \<Rightarrow> approval \<Rightarrow> json \<Rightarrow> json \<Rightarrow> js_error + json" where
  "approved_action P net now now' ap signingWallet result =
     (if \<not> truthy signingWallet \<or> \<not> has_key signingWallet
        then Inl (Error ''Critical: Wallet session invalid (missing key) after unlock.'')
      else if ap_type ap = ''sendTransaction'' then
        (case signAndBroadcastTransaction P net now now' (ap_params ap) signingWallet of
           Inl e \<Rightarrow> Inl e
         | Inr signed \<Rightarrow> Inr (JObj [(''result'', signed)]))
      else if ap_type ap = ''signTransaction'' then
        (case signTransactionOnly P now now' (ap_params ap) signingWallet of
           Inl e \<Rightarrow> Inl e
         | Inr signed \<Rightarrow> Inr (JObj [(''result'', JObj signed)]))
      else if ap_type ap = ''signMessage'' then
        (let pk = js_or (get_prop signingWallet ''privateKey'') (get_prop signingWallet ''privateKeyB64'')
         in if \<not> truthy pk then Inl (Error ''Private key missing for message signing'')
            else if ap_params ap = JUndefined \<or> ap_params ap = JNull
              then Inl (cannot_read (ap_params ap) ''payload'')
            else case signMessageWithKey P (get_prop (ap_params ap) ''payload'') pk of
                   Inl e \<Rightarrow> Inl e
                 | Inr sig \<Rightarrow>
                     Inr (JObj [(''result'', JObj
                            [(''signature'', JStr sig),
                             (''publicKey'', get_prop signingWallet ''publicKeyB64''),
                             (''address'', get_prop signingWallet ''address''),
                             (''payload'', get_prop (ap_params ap) ''payload'')])]))
      else Inr (JObj [(''result'', result)]))"

definition handleResolveApproval ::
  "('a platform_scheme) \<Rightarrow> http_response option \<Rightarrow> int \<Rightarrow> int \<Rightarrow> bg_state \<Rightarrow> json \<Rightarrow> json \<times> bg_state" where
  "handleResolveApproval P net now now' s data =
     (let s1 = (if truthy (get_prop data ''sessionKey'')
                then s\<lparr>memorySessionKey := get_prop data ''sessionKey''\<rparr> else s)
      in case (case get_prop data ''id'' of
                 JStr k \<Rightarrow> map_option (\<lambda>ap. (k, ap)) (map_of (dappApprovals s1) k)
               | _ \<Rightarrow> None) of
           None \<Rightarrow> (JObj [(''success'', JBool False), (''error'', JStr ''Request not found'')], s1)
         | Some (k, ap) \<Rightarrow>
             (let s2 = s1\<lparr>dappApprovals := map_delete (dappApprovals s1) k\<rparr>
              in if strict_eq (get_prop data ''decision'') (JStr ''approved'') then
                   (case signing_wallet P s2 ap of
                      (Inl e, s3) \<Rightarrow>
                        (JObj [(''success'', JBool True)],
                         s3\<lparr>approval_promises := settle (approval_promises s3) k
                              (Rejected (rejection 5000
                                 (js_or (JStr (err_message e)) (JStr ''Internal signing error''))))\<rparr>)
                    | (Inr signingWallet, s3) \<Rightarrow>
                        (case approved_action P net now now' ap signingWallet (get_prop data ''result'') of
                           Inl e \<Rightarrow>
                             (JObj [(''success'', JBool True)],
                              s3\<lparr>approval_promises := settle (approval_promises s3) k
                                   (Rejected (rejection 5000
                                      (js_or (JStr (err_message e)) (JStr ''Internal signing error''))))\<rparr>)
                         | Inr v \<Rightarrow>
                             (JObj [(''success'', JBool True)],
                              s3\<lparr>approval_promises := settle (approval_promises s3) k (Resolved v)\<rparr>)))
                 else
                   (JObj [(''success'', JBool True)],
                    s2\<lparr>approval_promises := settle (approval_promises s2) k
                         (Rejected (rejection 4001 (JStr ''User rejected request'')))\<rparr>)))"

section \<open>Concrete instances\<close>

text \<open>
  A platform to run the definitions on: the identity for the base64 codec, a short
  digest, a seed as its own public key, and a signature made of the public key and a checksum of the
  message. The session key \<open>session-key\<close> decrypts a ciphertext by reversing it.
\<close>

definition test_sign :: "bytes \<Rightarrow> bytes \<Rightarrow> bytes" where
  "test_sign msg sk =
     take 32 sk @ replicate 31 (CHR 0x00)
       @ [char_of (foldl (\<lambda>a c. (a + of_char c) mod 256) (0 :: int) msg)]"

definition test_platform :: platform where
  "test_platform =
     \<lparr>atob = Some,
      btoa = (\<lambda>b. b),
      sha256 = (\<lambda>b. take 4 (rev b)),
      sign_detached = test_sign,
      verify_detached = (\<lambda>msg sig pk. sig = test_sign msg (pk @ pk)),
      keyPair_fromSeed = (\<lambda>seed. (seed, seed @ seed)),
      decryptSession =
        (\<lambda>enc key. if key = JStr ''session-key'' then Inr (JStr (rev (to_string enc)))
                    else Inl (Error ''Decryption failed'')),
      JSON_parse = (\<lambda>s. None)\<rparr>"

definition test_seed :: string where
  "test_seed = ''0123456789abcdef0123456789abcdef''"

definition test_address :: string where
  "test_address = ''oct'' @ base58Encode (sha256 test_platform test_seed)"

definition test_wallet :: json where
  "test_wallet =
     JObj [(''address'', JStr test_address), (''publicKey'', JStr test_seed),
           (''publicKeyB64'', JStr test_seed), (''privateKey'', JStr test_seed),
           (''privateKeyB64'', JStr test_seed)]"

definition test_session :: json where
  "test_session =
     JObj [(''address'', JStr test_address), (''publicKey'', JStr test_seed),
           (''encryptedPrivateKey'', JStr (rev test_seed)), (''network'', JStr ''mainnet''),
           (''timestamp'', JNum (num_of_int 1700000000000))]"

definition legacy_session :: json where
  "legacy_session = JObj [(''address'', JStr test_address), (''privateKey'', JStr test_seed)]"

definition bg_init :: bg_state where
  "bg_init =
     \<lparr>dappConnections = [], dappApprovals = [], approval_promises = [],
      activeSessionCache = JNull, memorySessionKey = JNull, session_storage = JUndefined,
      session_storage_throws = False, saved_connections = None, windows = []\<rparr>"

definition unlocked_state :: bg_state where
  "unlocked_state = bg_init\<lparr>activeSessionCache := test_session, memorySessionKey := JStr ''session-key''\<rparr>"

definition legacy_state :: bg_state where
  "legacy_state = bg_init\<lparr>activeSessionCache := legacy_session\<rparr>"

definition test_connection :: json where
  "test_connection =
     JObj [(''origin'', JStr ''https://d.app''), (''address'', JStr test_address),
           (''connected'', JBool True), (''connectedAt'', JNum (num_of_int 1700000000000)),
           (''networkId'', JStr ''mainnet''), (''chainId'', JNum (num_of_int 2))]"

definition connected_state :: bg_state where
  "connected_state = unlocked_state\<lparr>dappConnections := [(''https://d.app'', test_connection)]\<rparr>"

text \<open>A transaction request with an explicit nonce of \<open>0\<close> and a message, and the
  signed transaction that \<open>signTransactionOnly\<close> makes of it at time \<open>1700000000000\<close>.\<close>

definition test_tx_params :: json where
  "test_tx_params =
     JObj [(''to'', JStr ''octB''), (''amount'', JStr ''2.01''), (''nonce'', JNum (Fin 0 0)),
           (''message'', JStr ''hi'')]"

definition test_signed :: "(string \<times> json) list" where
  "test_signed =
     [(''from'', JStr ''oct3coo2J''), (''to_'', JStr ''octB''), (''amount'', JStr ''2009999''),
      (''nonce'', JNum (num_of_int 1700000000000)), (''ou'', JStr ''2000''),
      (''timestamp'', JNum (num_of_int 1700000000)), (''message'', JStr ''hi''),
      (''signature'', JStr (test_seed @ replicate 31 (CHR 0x00) @ [CHR 0x83])),
      (''public_key'', JStr test_seed)]"

text \<open>An answer of the node that accepts a transaction, and what
  \<open>signAndBroadcastTransaction\<close> returns for it.\<close>

definition test_response :: http_response where
  "test_response =
     \<lparr>resp_ok = True, resp_status = 200, resp_statusText = ''OK'', resp_text = ''ok abc123''\<rparr>"

definition test_sent :: json where
  "test_sent =
     JObj [(''signedTransaction'', JObj test_signed), (''txHash'', JStr ''abc123''),
           (''broadcast'', JBool True)]"

text \<open>The options of a transfer of 5 whole tokens, and the payload that
  \<open>createTransactionPayload\<close> makes of them at time \<open>1700000000000\<close>.\<close>

definition test_options :: tx_options where
  "test_options =
     \<lparr>opt_from = JStr ''octA'', opt_to = JStr ''octB'', opt_amount = JNum (Fin 5 0),
      opt_nonce = JNum (num_of_int 8), opt_message = JUndefined\<rparr>"

definition test_payload :: "(string \<times> json) list" where
  "test_payload =
     [(''from'', JStr ''octA''), (''to_'', JStr ''octB''), (''amount'', JStr ''5000000''),
      (''nonce'', JNum (num_of_int 8)), (''ou'', JStr ''1''),
      (''timestamp'', JNum (num_of_int 1700000000))]"

section \<open>The two stores of pending work\<close>

text \<open>
  The background worker and \<open>DappService\<close> are separate modules with separate state.
  \<open>dappService.clearExpiredRequests()\<close> in an extension that holds both reads and
  writes \<open>this.pendingRequests\<close> alone.
\<close>

record extension =
  background :: bg_state
  service :: dapp_service

definition dappService_clearExpiredRequests :: "extension \<Rightarrow> int \<Rightarrow> extension" where
  "dappService_clearExpiredRequests w now = w\<lparr>service := clearExpiredRequests (service w) now\<rparr>"

text \<open>An extension in which a connect request of \<open>https://d.app\<close> was put to the user at
  time \<open>0\<close> under the id \<open>uuid-1\<close>, and the same request and a later one were added to
  \<open>DappService\<close> at times \<open>0\<close> and \<open>200000\<close>.\<close>

definition test_extension :: extension where
  "test_extension =
     \<lparr>background = requestApproval unlocked_state ''https://d.app'' ''connect''
        (JObj [(''title'', JStr ''D''), (''favicon'', JStr ''f.ico'')]) test_wallet ''uuid-1'' 0,
      service = addPendingRequest
        (addPendingRequest \<lparr>ds_pendingRequests = []\<rparr> ''uuid-1'' [(''type'', JStr ''connect'')] 0)
        ''req-2'' [(''type'', JStr ''signMessage'')] 200000\<rparr>"

text \<open>
  Two payloads for \<open>signMessage\<close>, neither with an \<open>expiresAt\<close>: one of version \<open>OSM-1\<close>
  and one of another version. \<open>default_options\<close> is the default \<open>options = {}\<close> of
  \<open>verifyOSM1Signature\<close>.
\<close>

definition test_message :: "(string \<times> json) list" where
  "test_message =
     [(''version'', JStr ''OSM-1''), (''message'', JStr ''hi''), (''address'', JStr test_address),
      (''domain'', JStr ''https://d.app''), (''nonce'', JStr ''n-1''),
      (''timestamp'', JNum (num_of_int 1700000000000))]"

definition other_version_message :: "(string \<times> json) list" where
  "other_version_message =
     [(''version'', JStr ''OSM-2''), (''message'', JStr ''hi''), (''address'', JStr test_address),
      (''domain'', JStr ''https://d.app''), (''nonce'', JStr ''n-1''),
      (''timestamp'', JNum (num_of_int 1700000000000))]"

definition default_options :: verify_options where
  "default_options = \<lparr>expectedDomain = JUndefined, checkExpiry = JUndefined\<rparr>"

section \<open>Properties\<close>

subsection \<open>Canonical serialisation\<close>

lemma sort_keys_perm:
  assumes "mset Q = mset P"
  shows "sort (map fst Q) = sort (map fst P)"
proof -
  have "mset (map fst Q) = mset (map fst P)" using assms by (metis mset_map)
  then have "mset (sort (map fst Q)) = mset (map fst P)" by simp
  then show ?thesis by (intro properties_for_sort) simp_all
qed

lemma obj_get_perm:
  assumes "distinct (map fst P)" "mset Q = mset P"
  shows "obj_get Q k = obj_get P k"
proof -
  have d: "distinct (map fst Q)"
    using assms by (metis mset_map mset_eq_imp_distinct_iff)
  have "set Q = set P" using assms(2) by (rule mset_eq_setD)
  then have "map_of Q = map_of P" using d assms(1) by (simp add: map_of_inject_set)
  then show ?thesis by (simp add: obj_get_def)
qed

lemma sortedPayload_perm:
  assumes "distinct (map fst P)" "mset Q = mset P"
  shows "sortedPayload Q = sortedPayload P"
proof -
  have "copy_defined Q = copy_defined P"
    by (intro ext) (simp add: copy_defined_def obj_get_perm [OF assms] cong: if_cong)
  then show ?thesis
    unfolding sortedPayload_def by (simp add: sort_keys_perm [OF assms(2)])
qed

lemma serializePayload_perm:
  assumes "distinct (map fst P)" "mset Q = mset P"
  shows "serializePayload Q = serializePayload P" "createSigningMessage Q = createSigningMessage P"
  by (simp_all add: serializePayload_def createSigningMessage_def sortedPayload_perm [OF assms])

lemma foldl_plain:
  assumes "\<forall>k\<in>set ks. \<not> is_array_index k" "distinct ks" "set ks \<inter> fst ` set acc = {}"
  shows "foldl (copy_defined P) acc ks
         = acc @ filter (\<lambda>(k, v). v \<noteq> JUndefined \<and> k \<noteq> ''__proto__'') (map (\<lambda>k. (k, obj_get P k)) ks)"
  using assms
proof (induction ks arbitrary: acc)
  case Nil
  then show ?case by simp
next
  case (Cons k ks)
  let ?acc' = "copy_defined P acc k"
  have k: "\<not> is_array_index k" "k \<notin> fst ` set acc" "k \<notin> set ks" using Cons.prems by auto
  have acc': "?acc' = acc @ filter (\<lambda>(k, v). v \<noteq> JUndefined \<and> k \<noteq> ''__proto__'') [(k, obj_get P k)]"
    using k by (auto simp: copy_defined_def obj_set_def)
  have "fst ` set ?acc' \<subseteq> insert k (fst ` set acc)"
    unfolding acc' by auto
  then have disj: "set ks \<inter> fst ` set ?acc' = {}" using Cons.prems k by auto
  have "foldl (copy_defined P) ?acc' ks
        = ?acc' @ filter (\<lambda>(k, v). v \<noteq> JUndefined \<and> k \<noteq> ''__proto__'') (map (\<lambda>k. (k, obj_get P k)) ks)"
    using Cons.IH [of ?acc'] Cons.prems disj by simp
  also have "\<dots> = acc @ filter (\<lambda>(k, v). v \<noteq> JUndefined \<and> k \<noteq> ''__proto__'')
                         (map (\<lambda>k. (k, obj_get P k)) (k # ks))"
    by (subst acc') simp
  finally show ?case by simp
qed



lemma sortedPayload_plain:
  assumes "distinct (map fst P)" "\<forall>k\<in>set (map fst P). \<not> is_array_index k"
  shows "sortedPayload P
         = filter (\<lambda>(k, v). v \<noteq> JUndefined \<and> k \<noteq> ''__proto__'')
             (map (\<lambda>k. (k, obj_get P k)) (sort (map fst P)))"
proof -
  have "sortedPayload P = foldl (copy_defined P) [] (sort (map fst P))"
    unfolding sortedPayload_def ..
  also have "\<dots> = [] @ filter (\<lambda>(k, v). v \<noteq> JUndefined \<and> k \<noteq> ''__proto__'')
             (map (\<lambda>k. (k, obj_get P k)) (sort (map fst P)))"
  proof (rule foldl_plain)
    show "\<forall>k\<in>set (sort (map fst P)). \<not> is_array_index k" using assms(2) by simp
    show "distinct (sort (map fst P))" using assms(1) by simp
    show "set (sort (map fst P)) \<inter> fst ` set [] = {}" by simp
  qed
  finally show ?thesis by simp
qed

lemma sorted_filter_keys:
  assumes "sorted ks"
  shows "sorted (map fst (filter Q (map (\<lambda>k. (k, f k)) ks)))"
proof -
  have "map fst (filter Q (map (\<lambda>k. (k, f k)) ks)) = filter (\<lambda>k. Q (k, f k)) ks"
    by (induction ks) auto
  then show ?thesis using assms by (simp add: sorted_wrt_filter)
qed

lemma sortedPayload_sorted:
  assumes "distinct (map fst P)" "\<forall>k\<in>set (map fst P). \<not> is_array_index k"
  shows "sorted (map fst (sortedPayload P))"
  unfolding sortedPayload_plain [OF assms] by (rule sorted_filter_keys) simp

lemma sortedPayload_set:
  assumes "distinct (map fst P)" "\<forall>k\<in>set (map fst P). \<not> is_array_index k"
  shows "set (sortedPayload P)
         = {(k, v). (k, v) \<in> set P \<and> v \<noteq> JUndefined \<and> k \<noteq> ''__proto__''}"
proof -
  have a: "obj_get P k = v" if "(k, v) \<in> set P" for k v
    using that assms(1) by (simp add: obj_get_def)
  have b: "(k, obj_get P k) \<in> set P" if "k \<in> fst ` set P" for k
  proof -
    from that obtain v where v: "(k, v) \<in> set P" by auto
    then show ?thesis using a [OF v] by simp
  qed
  have "set (filter (\<lambda>(k, v). v \<noteq> JUndefined \<and> k \<noteq> ''__proto__'')
               (map (\<lambda>k. (k, obj_get P k)) (sort (map fst P))))
        = {(k, v). (k, v) \<in> set P \<and> v \<noteq> JUndefined \<and> k \<noteq> ''__proto__''}"
    (is "?L = ?R")
  proof (intro set_eqI iffI)
    fix x assume "x \<in> ?L"
    then obtain k where k: "k \<in> fst ` set P" "x = (k, obj_get P k)"
      "obj_get P k \<noteq> JUndefined" "k \<noteq> ''__proto__''"
      by auto
    then show "x \<in> ?R" using b [OF k(1)] by simp
  next
    fix x assume "x \<in> ?R"
    then obtain k v where x: "x = (k, v)" "(k, v) \<in> set P" "v \<noteq> JUndefined" "k \<noteq> ''__proto__''"
      by auto
    have k: "k \<in> fst ` set P" using x(2) by force
    have "x = (\<lambda>k. (k, obj_get P k)) k" using x(1) a [OF x(2)] by simp
    then have "x \<in> (\<lambda>k. (k, obj_get P k)) ` fst ` set P" using k by (rule image_eqI)
    then show "x \<in> ?L" using x a [OF x(2)] by simp
  qed
  then show ?thesis by (simp only: sortedPayload_plain [OF assms])
qed

lemma createSigningMessage_format:
  "createSigningMessage P
   = CHR 0x19 # ''Octra Signed Message:'' @ [CHR 0x0A]
       @ dec_nat (length (serializePayload P)) @ [CHR 0x0A] @ serializePayload P"
  by (simp add: createSigningMessage_def MESSAGE_PREFIX_def Let_def)

text \<open>
  Claim C5. \<open>serializePayload(P)\<close> is the same string for every order in which the keys
  of \<open>P\<close> were inserted, has its keys sorted lexicographically and drops the keys whose
  value is \<open>undefined\<close>, and \<open>createSigningMessage(P)\<close> is the prefix, the decimal length
  of that string, a newline and the string. The invariance holds (\<open>serializePayload_perm\<close>
  above), and the keys are sorted whenever none of them is an array index
  (\<open>sortedPayload_sorted\<close>). A fresh object enumerates array-index keys first, in
  numeric order, whatever the order of assignment: for the payload \<open>{"10": 1, "9": 2}\<close>
  the keys are sorted to \<open>"10", "9"\<close> and the string has \<open>"9"\<close> before \<open>"10"\<close>.
\<close>

theorem serializePayload_array_index_keys:
  \<open>serializePayload [(''10'', JNum (num_of_int 1)), (''9'', JNum (num_of_int 2))] = ''{"9":2,"10":1}''
   \<and> map fst (sortedPayload [(''10'', JNum (num_of_int 1)), (''9'', JNum (num_of_int 2))]) = [''9'', ''10'']
   \<and> \<not> sorted [''9'', ''10'']\<close>
  by code_simp

subsection \<open>Objects\<close>

lemma map_of_update_same:
  "k \<in> fst ` set kvs \<Longrightarrow>
   map_of (map (\<lambda>(k', v'). if k' = k then (k', v) else (k', v')) kvs) k = Some v"
  by (induction kvs) auto

lemma map_of_update_other:
  "k' \<noteq> k \<Longrightarrow>
   map_of (map (\<lambda>(k'', v'). if k'' = k then (k'', v) else (k'', v')) kvs) k' = map_of kvs k'"
  by (induction kvs) auto

lemma map_of_insert_index_same:
  "k \<notin> fst ` set kvs \<Longrightarrow> map_of (insert_index i k v kvs) k = Some v"
  by (induction kvs) auto

lemma map_of_insert_index_other:
  "k' \<noteq> k \<Longrightarrow> map_of (insert_index i k v kvs) k' = map_of kvs k'"
  by (induction kvs) auto

lemma obj_get_obj_set_same:
  assumes "k \<noteq> ''__proto__''"
  shows "obj_get (obj_set kvs k v) k = v"
proof (cases "k \<in> fst ` set kvs")
  case True
  then show ?thesis using assms by (simp add: obj_get_def obj_set_def map_of_update_same)
next
  case False
  then have n: "map_of kvs k = None" by (simp add: map_of_eq_None_iff)
  show ?thesis
    using assms False n
    by (simp add: obj_get_def obj_set_def map_of_insert_index_same map_add_def)
qed

lemma obj_get_obj_set_other:
  assumes "k' \<noteq> k"
  shows "obj_get (obj_set kvs k v) k' = obj_get kvs k'"
  using assms
  by (auto simp: obj_get_def obj_set_def map_of_update_other map_of_insert_index_other map_add_def
           split: option.splits)


subsection \<open>Signed transactions\<close>

lemma normalize_fin_nonzero:
  "m \<noteq> 0 \<Longrightarrow> \<exists>m' e'. normalize_fin m e = Fin m' e' \<and> m' \<noteq> 0"
proof (induction m e rule: normalize_fin.induct)
  case (1 m e)
  show ?case
  proof (cases "even m")
    case True
    then have "m div 2 \<noteq> 0" using "1.prems" by presburger
    then show ?thesis using "1.IH" "1.prems" True by (subst normalize_fin.simps) simp
  next
    case False
    then show ?thesis using "1.prems" by (subst normalize_fin.simps) simp
  qed
qed

lemma num_of_int_truthy: "now \<noteq> 0 \<Longrightarrow> truthy (JNum (num_of_int now)) \<and> num_of_int now \<noteq> NaN \<and> num_of_int now \<noteq> Fin 0 0"
  using normalize_fin_nonzero [of now 0] by (auto simp: truthy_def num_of_int_def)

lemma signed_nonce:
  assumes "signTransactionOnly P now now' params wallet = Inr signed"
  shows "obj_get signed ''nonce''
         = JNum (to_number (js_or (get_prop (tx_params params) ''nonce'') (JNum (num_of_int now))))"
  using assms
  by (auto simp: signTransactionOnly_def Let_def tx_object_def tx_fields_def obj_get_def
           split: if_splits option.splits sum.splits prod.splits)


lemma signTransactionOnly_Inr:
  assumes "signTransactionOnly P now now' params wallet = Inr signed"
  shows "\<exists>seed. atob P (to_string (js_or (get_prop wallet ''privateKey'') (get_prop wallet ''privateKeyB64''))) = Some seed
           \<and> length seed = 32 \<and> length (snd (keyPair_fromSeed P seed)) = 64
           \<and> truthy (get_prop wallet ''address'') \<and> truthy (get_prop (tx_params params) ''to'')
           \<and> signed = tx_object now now' params wallet
                @ [(''signature'', JStr (btoa P (sign_detached P
                      (utf8 (tx_sign_payload (tx_object now now' params wallet)))
                      (snd (keyPair_fromSeed P seed))))),
                   (''public_key'', get_prop wallet ''publicKeyB64'')]"
  using assms
  unfolding signTransactionOnly_def tx_object_def Let_def nacl_fromSeed_def nacl_sign_detached_def
  by (auto simp: tx_fields_def obj_get_def split: if_splits option.splits sum.splits prod.splits)

lemma quote_keys:
  \<open>json_quote ''from'' = ''"from"''\<close>
  \<open>json_quote ''to_'' = ''"to_"''\<close>
  \<open>json_quote ''amount'' = ''"amount"''\<close>
  \<open>json_quote ''nonce'' = ''"nonce"''\<close>
  \<open>json_quote ''ou'' = ''"ou"''\<close>
  \<open>json_quote ''timestamp'' = ''"timestamp"''\<close>
  by code_simp+

lemma stringify_six:
  assumes "json_str v1 = Some s1" "json_str v2 = Some s2" "json_str v3 = Some s3"
    "json_str v4 = Some s4" "json_str v5 = Some s5" "json_str v6 = Some s6"
  shows \<open>stringify_object [(''from'', v1), (''to_'', v2), (''amount'', v3), (''nonce'', v4),
            (''ou'', v5), (''timestamp'', v6)]
         = ''{"from":'' @ s1 @ '',"to_":'' @ s2 @ '',"amount":'' @ s3 @ '',"nonce":'' @ s4
             @ '',"ou":'' @ s5 @ '',"timestamp":'' @ s6 @ ''}''\<close>
  using assms by (simp add: stringify_object_def quote_keys)

lemma truthy_json_str: "truthy v \<Longrightarrow> json_str v = Some (json_text v)"
  by (cases v) (auto simp: truthy_def json_text_def)

lemma json_str_JNum: "json_str (JNum n) = Some (json_text (JNum n))"
  by (simp add: json_text_def)

lemma json_str_JStr: "json_str (JStr s) = Some (json_text (JStr s))"
  by (simp add: json_text_def)


lemma obj_get_append_other:
  assumes "k \<notin> fst ` set ys"
  shows "obj_get (xs @ ys) k = obj_get xs k"
proof -
  have "map_of ys k = None" using assms by (simp add: map_of_eq_None_iff)
  then show ?thesis by (simp add: obj_get_def map_add_def split: option.splits)
qed

lemma tx_amount_str: "json_str (tx_amount t) = Some (json_text (tx_amount t))"
proof (cases "truthy (get_prop t ''amountRaw'')")
  case True
  then show ?thesis by (simp add: tx_amount_def Let_def truthy_json_str)
next
  case False
  then show ?thesis by (simp add: tx_amount_def Let_def json_text_def)
qed

lemma tx_ou_str: "json_str (tx_ou t) = Some (json_text (tx_ou t))"
  by (simp add: tx_ou_def json_text_def)

lemma tx_fields_get:
  "obj_get (tx_object now now' params wallet) ''from'' = get_prop wallet ''address''"
  "obj_get (tx_object now now' params wallet) ''to_'' = get_prop (tx_params params) ''to''"
  "obj_get (tx_object now now' params wallet) ''amount'' = tx_amount (tx_params params)"
  "obj_get (tx_object now now' params wallet) ''nonce''
     = JNum (to_number (js_or (get_prop (tx_params params) ''nonce'') (JNum (num_of_int now))))"
  "obj_get (tx_object now now' params wallet) ''ou'' = tx_ou (tx_params params)"
  "obj_get (tx_object now now' params wallet) ''timestamp'' = JNum (num_div_const (num_of_int now') 1000)"
  by (simp_all add: tx_object_def tx_fields_def obj_get_def)

lemma signed_fields:
  assumes "signTransactionOnly P now now' params wallet = Inr signed"
  shows "obj_get signed ''from'' = get_prop wallet ''address''"
    "obj_get signed ''to_'' = get_prop (tx_params params) ''to''"
    "obj_get signed ''amount'' = tx_amount (tx_params params)"
    "obj_get signed ''nonce''
       = JNum (to_number (js_or (get_prop (tx_params params) ''nonce'') (JNum (num_of_int now))))"
    "obj_get signed ''ou'' = tx_ou (tx_params params)"
    "obj_get signed ''timestamp'' = JNum (num_div_const (num_of_int now') 1000)"
proof -
  obtain sg pk where s: "signed = tx_object now now' params wallet @ [(''signature'', sg), (''public_key'', pk)]"
    using signTransactionOnly_Inr [OF assms] by blast
  show "obj_get signed ''from'' = get_prop wallet ''address''"
    unfolding s by (subst obj_get_append_other) (simp_all add: tx_fields_get)
  show "obj_get signed ''to_'' = get_prop (tx_params params) ''to''"
    unfolding s by (subst obj_get_append_other) (simp_all add: tx_fields_get)
  show "obj_get signed ''amount'' = tx_amount (tx_params params)"
    unfolding s by (subst obj_get_append_other) (simp_all add: tx_fields_get)
  show "obj_get signed ''nonce''
       = JNum (to_number (js_or (get_prop (tx_params params) ''nonce'') (JNum (num_of_int now))))"
    unfolding s by (subst obj_get_append_other) (simp_all add: tx_fields_get)
  show "obj_get signed ''ou'' = tx_ou (tx_params params)"
    unfolding s by (subst obj_get_append_other) (simp_all add: tx_fields_get)
  show "obj_get signed ''timestamp'' = JNum (num_div_const (num_of_int now') 1000)"
    unfolding s by (subst obj_get_append_other) (simp_all add: tx_fields_get)
qed

lemma signed_message_field:
  assumes "signTransactionOnly P now now' params wallet = Inr signed"
    and "truthy (get_prop (tx_params params) ''message'')"
  shows "obj_get signed ''message'' = get_prop (tx_params params) ''message''"
proof -
  obtain sg pk where s: "signed = tx_object now now' params wallet @ [(''signature'', sg), (''public_key'', pk)]"
    using signTransactionOnly_Inr [OF assms(1)] by blast
  show ?thesis
    unfolding s using assms(2)
    by (subst obj_get_append_other) (simp_all add: tx_object_def tx_fields_def obj_get_def)
qed

lemma signed_signature:
  assumes "signTransactionOnly P now now' params wallet = Inr signed"
  shows "\<exists>seed. atob P (to_string (js_or (get_prop wallet ''privateKey'') (get_prop wallet ''privateKeyB64''))) = Some seed
          \<and> obj_get signed ''signature''
              = JStr (btoa P (sign_detached P (utf8 (tx_sign_payload (tx_object now now' params wallet)))
                                (snd (keyPair_fromSeed P seed))))"
proof -
  obtain seed where a: "atob P (to_string (js_or (get_prop wallet ''privateKey'') (get_prop wallet ''privateKeyB64''))) = Some seed"
    and s: "signed = tx_object now now' params wallet
                @ [(''signature'', JStr (btoa P (sign_detached P
                      (utf8 (tx_sign_payload (tx_object now now' params wallet)))
                      (snd (keyPair_fromSeed P seed))))),
                   (''public_key'', get_prop wallet ''publicKeyB64'')]"
    using signTransactionOnly_Inr [OF assms] by blast
  have "''signature'' \<notin> fst ` set (tx_object now now' params wallet)"
    by (simp add: tx_object_def tx_fields_def)
  then have "map_of (tx_object now now' params wallet) ''signature'' = None"
    by (simp add: map_of_eq_None_iff)
  then have "obj_get signed ''signature''
      = JStr (btoa P (sign_detached P (utf8 (tx_sign_payload (tx_object now now' params wallet)))
                                (snd (keyPair_fromSeed P seed))))"
    unfolding s by (simp add: obj_get_def map_add_def)
  then show ?thesis using a by blast
qed


lemma sign_payload_text:
  assumes "signTransactionOnly P now now' params wallet = Inr signed"
  shows \<open>tx_sign_payload (tx_object now now' params wallet)
         = ''{"from":'' @ json_text (obj_get signed ''from'')
             @ '',"to_":'' @ json_text (obj_get signed ''to_'')
             @ '',"amount":'' @ json_text (obj_get signed ''amount'')
             @ '',"nonce":'' @ json_text (obj_get signed ''nonce'')
             @ '',"ou":'' @ json_text (obj_get signed ''ou'')
             @ '',"timestamp":'' @ json_text (obj_get signed ''timestamp'') @ ''}''\<close>
proof -
  have t: "truthy (get_prop wallet ''address'')" "truthy (get_prop (tx_params params) ''to'')"
    using signTransactionOnly_Inr [OF assms] by blast+
  note f = signed_fields [OF assms]
  have "tx_sign_payload (tx_object now now' params wallet)
        = stringify_object
            [(''from'', obj_get signed ''from''), (''to_'', obj_get signed ''to_''),
             (''amount'', obj_get signed ''amount''), (''nonce'', obj_get signed ''nonce''),
             (''ou'', obj_get signed ''ou''), (''timestamp'', obj_get signed ''timestamp'')]"
    unfolding tx_sign_payload_def f tx_fields_get ..
  also have "\<dots> = ''{\"from\":'' @ json_text (obj_get signed ''from'')
             @ '',\"to_\":'' @ json_text (obj_get signed ''to_'')
             @ '',\"amount\":'' @ json_text (obj_get signed ''amount'')
             @ '',\"nonce\":'' @ json_text (obj_get signed ''nonce'')
             @ '',\"ou\":'' @ json_text (obj_get signed ''ou'')
             @ '',\"timestamp\":'' @ json_text (obj_get signed ''timestamp'') @ ''}''"
  proof (rule stringify_six)
    show "json_str (obj_get signed ''from'') = Some (json_text (obj_get signed ''from''))"
      unfolding f using t(1) by (rule truthy_json_str)
    show "json_str (obj_get signed ''to_'') = Some (json_text (obj_get signed ''to_''))"
      unfolding f using t(2) by (rule truthy_json_str)
    show "json_str (obj_get signed ''amount'') = Some (json_text (obj_get signed ''amount''))"
      unfolding f by (rule tx_amount_str)
    show "json_str (obj_get signed ''nonce'') = Some (json_text (obj_get signed ''nonce''))"
      unfolding f by (rule json_str_JNum)
    show "json_str (obj_get signed ''ou'') = Some (json_text (obj_get signed ''ou''))"
      unfolding f by (rule tx_ou_str)
    show "json_str (obj_get signed ''timestamp'') = Some (json_text (obj_get signed ''timestamp''))"
      unfolding f by (rule json_str_JNum)
  qed
  finally show ?thesis .
qed

lemma broadcast_signs_alike:
  assumes "signTransactionOnly P now now' params wallet = Inr signed"
    and "signAndBroadcastTransaction P net now now' params wallet = Inr r"
  shows "get_prop r ''signedTransaction'' = JObj signed"
  using assms
  by (auto simp: signAndBroadcastTransaction_def get_prop_def obj_get_def
           split: option.splits if_splits)


lemma broadcast_succeeds:
  assumes "signTransactionOnly P now now' params wallet = Inr signed" and "resp_ok resp"
  shows "\<exists>r. signAndBroadcastTransaction P (Some resp) now now' params wallet = Inr r"
  using assms by (simp add: signAndBroadcastTransaction_def)

text \<open>
  Claim C6. On both the \<open>signTransaction\<close> and the \<open>sendTransaction\<close> path, the bytes
  given to the signature primitive are the UTF-8 encoding of the compact JSON of the six
  fields \<open>from\<close>, \<open>to_\<close>, \<open>amount\<close>, \<open>nonce\<close>, \<open>ou\<close>, \<open>timestamp\<close> of the signed
  transaction, in that order; a \<open>message\<close> is attached to the signed transaction and is
  not among the signed bytes. The platform \<open>P\<close> is arbitrary, so the argument of its
  \<open>sign_detached\<close> is what the code passes. The send path signs by the same function:
  it returns a transaction whenever the node accepts what was signed, and the
  transaction it returns is the signed one.
\<close>

theorem signTransactionOnly_signs_six_fields:
  assumes "signTransactionOnly P now now' params wallet = Inr signed"
  shows \<open>(\<exists>seed. atob P (to_string (js_or (get_prop wallet ''privateKey'')
                                           (get_prop wallet ''privateKeyB64''))) = Some seed
            \<and> obj_get signed ''signature''
                = JStr (btoa P (sign_detached P
                    (utf8 (''{"from":'' @ json_text (obj_get signed ''from'')
                           @ '',"to_":'' @ json_text (obj_get signed ''to_'')
                           @ '',"amount":'' @ json_text (obj_get signed ''amount'')
                           @ '',"nonce":'' @ json_text (obj_get signed ''nonce'')
                           @ '',"ou":'' @ json_text (obj_get signed ''ou'')
                           @ '',"timestamp":'' @ json_text (obj_get signed ''timestamp'') @ ''}''))
                    (snd (keyPair_fromSeed P seed)))))
         \<and> (truthy (get_prop (tx_params params) ''message'')
              \<longrightarrow> obj_get signed ''message'' = get_prop (tx_params params) ''message'')
         \<and> (\<forall>net r. signAndBroadcastTransaction P net now now' params wallet = Inr r
              \<longrightarrow> get_prop r ''signedTransaction'' = JObj signed)
         \<and> (\<forall>resp. resp_ok resp
              \<longrightarrow> (\<exists>r. signAndBroadcastTransaction P (Some resp) now now' params wallet = Inr r))\<close>
  using signed_signature [OF assms] signed_message_field [OF assms]
    broadcast_signs_alike [OF assms] broadcast_succeeds [OF assms]
  unfolding sign_payload_text [OF assms] by blast

theorem signTransactionOnly_signs_six_fields_witness:
  \<open>signTransactionOnly test_platform 1700000000000 1700000000000 test_tx_params test_wallet
       = Inr test_signed
     \<and> obj_get test_signed ''signature''
         = JStr (btoa test_platform (sign_detached test_platform
             (utf8 ''{"from":"oct3coo2J","to_":"octB","amount":"2009999","nonce":1700000000000,"ou":"2000","timestamp":1700000000}'')
             (snd (keyPair_fromSeed test_platform test_seed))))
     \<and> obj_get test_signed ''message'' = JStr ''hi''
     \<and> resp_ok test_response
     \<and> signAndBroadcastTransaction test_platform (Some test_response) 1700000000000 1700000000000
          test_tx_params test_wallet = Inr test_sent
     \<and> get_prop test_sent ''signedTransaction'' = JObj test_signed\<close>
proof -
  have h: "signTransactionOnly test_platform 1700000000000 1700000000000 test_tx_params test_wallet
             = Inr test_signed"
    by code_simp
  have b: "signAndBroadcastTransaction test_platform (Some test_response) 1700000000000 1700000000000
             test_tx_params test_wallet = Inr test_sent"
    by code_simp
  have ok: "resp_ok test_response" by code_simp
  have a: "atob test_platform (to_string (js_or (get_prop test_wallet ''privateKey'')
             (get_prop test_wallet ''privateKeyB64''))) = Some test_seed"
    by code_simp
  have j: \<open>''{"from":'' @ json_text (obj_get test_signed ''from'')
             @ '',"to_":'' @ json_text (obj_get test_signed ''to_'')
             @ '',"amount":'' @ json_text (obj_get test_signed ''amount'')
             @ '',"nonce":'' @ json_text (obj_get test_signed ''nonce'')
             @ '',"ou":'' @ json_text (obj_get test_signed ''ou'')
             @ '',"timestamp":'' @ json_text (obj_get test_signed ''timestamp'') @ ''}''
           = ''{"from":"oct3coo2J","to_":"octB","amount":"2009999","nonce":1700000000000,"ou":"2000","timestamp":1700000000}''\<close>
    by code_simp
  have m: "truthy (get_prop (tx_params test_tx_params) ''message'')"
    "get_prop (tx_params test_tx_params) ''message'' = JStr ''hi''"
    by code_simp+
  show ?thesis
    using signTransactionOnly_signs_six_fields [OF h] h a m b ok unfolding j by auto
qed

text \<open>
  Claim C10. A nonce of \<open>0\<close> given by the caller of \<open>signTransaction\<close> or
  \<open>sendTransaction\<close> is not \<open>undefined\<close> or \<open>null\<close>, so the auto-fill leaves the request
  as it is; \<open>signTransactionOnly\<close> then takes \<open>Date.now()\<close> for the falsy nonce, and the
  signed transaction carries that time, which is not \<open>0\<close>. So does the transaction that
  \<open>signAndBroadcastTransaction\<close> returns, which it does whenever the signing succeeds and
  the node accepts.
\<close>

theorem explicit_zero_nonce_is_replaced:
  assumes "get_prop (tx_params params) ''nonce'' = JNum (Fin 0 0)" and "now \<noteq> 0"
  shows "with_nonce net t params = Inr params
       \<and> (\<forall>kvs. tx_params params = JObj kvs \<longrightarrow> ensureNonce net t kvs = kvs)
       \<and> (\<forall>signed. signTransactionOnly P now now' params wallet = Inr signed
            \<longrightarrow> obj_get signed ''nonce'' = JNum (num_of_int now)
              \<and> obj_get signed ''nonce'' \<noteq> JNum (Fin 0 0))
       \<and> (\<forall>bnet r. signAndBroadcastTransaction P bnet now now' params wallet = Inr r
            \<longrightarrow> get_prop (get_prop r ''signedTransaction'') ''nonce'' = JNum (num_of_int now)
              \<and> get_prop (get_prop r ''signedTransaction'') ''nonce'' \<noteq> JNum (Fin 0 0))
       \<and> (\<forall>signed resp. signTransactionOnly P now now' params wallet = Inr signed \<and> resp_ok resp
            \<longrightarrow> (\<exists>r. signAndBroadcastTransaction P (Some resp) now now' params wallet = Inr r))"
proof -
  have n: "JNum (to_number (js_or (get_prop (tx_params params) ''nonce'') (JNum (num_of_int now))))
           = JNum (num_of_int now)"
    using assms(1) by (simp add: js_or_def truthy_def to_number_def)
  have nz: "JNum (num_of_int now) \<noteq> JNum (Fin 0 0)"
    using num_of_int_truthy [OF assms(2)] by simp
  have sign: "obj_get signed ''nonce'' = JNum (num_of_int now)"
    if "signTransactionOnly P now now' params wallet = Inr signed" for signed
    using signed_nonce [OF that] n by simp
  have send: "get_prop (get_prop r ''signedTransaction'') ''nonce'' = JNum (num_of_int now)"
    if b: "signAndBroadcastTransaction P bnet now now' params wallet = Inr r" for bnet r
  proof -
    obtain signed where s: "signTransactionOnly P now now' params wallet = Inr signed"
      using b by (auto simp: signAndBroadcastTransaction_def split: sum.splits)
    have "get_prop r ''signedTransaction'' = JObj signed"
      by (rule broadcast_signs_alike [OF s b])
    then have "get_prop (get_prop r ''signedTransaction'') ''nonce'' = obj_get signed ''nonce''"
      by (simp add: get_prop_def)
    then show ?thesis using sign [OF s] by simp
  qed
  have fill: "with_nonce net t params = Inr params"
    using assms(1) by (simp add: with_nonce_def Let_def)
  have keep: "ensureNonce net t kvs = kvs" if "tx_params params = JObj kvs" for kvs
  proof -
    have "obj_get kvs ''nonce'' = JNum (Fin 0 0)"
      using assms(1) that by (simp add: get_prop_def)
    then show ?thesis by (simp add: ensureNonce_def)
  qed
  have sent: "\<exists>r. signAndBroadcastTransaction P (Some resp) now now' params wallet = Inr r"
    if "signTransactionOnly P now now' params wallet = Inr signed \<and> resp_ok resp" for signed resp
    using that broadcast_succeeds by blast
  show ?thesis using fill keep sign send nz sent by simp
qed

theorem explicit_zero_nonce_is_replaced_witness:
  "get_prop (tx_params test_tx_params) ''nonce'' = JNum (Fin 0 0)
   \<and> (1700000000000 :: int) \<noteq> 0
   \<and> with_nonce BalanceThrows 5 test_tx_params = Inr test_tx_params
   \<and> signTransactionOnly test_platform 1700000000000 1700000000000 test_tx_params test_wallet
       = Inr test_signed
   \<and> obj_get test_signed ''nonce'' = JNum (num_of_int 1700000000000)
   \<and> obj_get test_signed ''nonce'' \<noteq> JNum (Fin 0 0)
   \<and> signAndBroadcastTransaction test_platform (Some test_response) 1700000000000 1700000000000
        test_tx_params test_wallet = Inr test_sent
   \<and> get_prop (get_prop test_sent ''signedTransaction'') ''nonce'' = JNum (num_of_int 1700000000000)
   \<and> get_prop (get_prop test_sent ''signedTransaction'') ''nonce'' \<noteq> JNum (Fin 0 0)"
proof -
  have h: "get_prop (tx_params test_tx_params) ''nonce'' = JNum (Fin 0 0)"
    by code_simp
  have z: "(1700000000000 :: int) \<noteq> 0" by simp
  have s: "signTransactionOnly test_platform 1700000000000 1700000000000 test_tx_params test_wallet
             = Inr test_signed"
    by code_simp
  have b: "signAndBroadcastTransaction test_platform (Some test_response) 1700000000000 1700000000000
             test_tx_params test_wallet = Inr test_sent"
    by code_simp
  show ?thesis
    using explicit_zero_nonce_is_replaced [OF h z, of BalanceThrows 5 test_platform 1700000000000 test_wallet]
      h s z b by blast
qed

lemma createTransactionPayload_ou:
  assumes "createTransactionPayload now opts = Inr (payload', msg)"
  shows "\<exists>amountNum.
           (if is_string (opt_amount opts) then microToOct (opt_amount opts) = Inr (to_number amountNum)
            else amountNum = opt_amount opts)
           \<and> obj_get payload' ''ou''
               = JStr (if num_less (to_number amountNum) (num_of_int 1000) then ''1'' else ''3'')"
proof (cases "is_string (opt_amount opts)")
  case True
  then obtain n where n: "microToOct (opt_amount opts) = Inr n"
    using assms by (cases "microToOct (opt_amount opts)") (simp_all add: createTransactionPayload_def)
  have "payload' = [(''from'', opt_from opts), (''to_'', opt_to opts), (''amount'', opt_amount opts),
                   (''nonce'', JNum (to_number (opt_nonce opts))),
                   (''ou'', JStr (if num_less (to_number (JNum n)) (num_of_int 1000) then ''1'' else ''3'')),
                   (''timestamp'', JNum (num_div_const (num_of_int now) 1000))]"
    using assms True n by (simp add: createTransactionPayload_def)
  then have "obj_get payload' ''ou''
             = JStr (if num_less (to_number (JNum n)) (num_of_int 1000) then ''1'' else ''3'')"
    by (simp add: obj_get_def)
  moreover have "microToOct (opt_amount opts) = Inr (to_number (JNum n))"
    using n by (simp add: to_number_def)
  ultimately show ?thesis using True by metis
next
  case False
  then obtain s where s: "octToMicro (opt_amount opts) = Inr s"
    using assms by (cases "octToMicro (opt_amount opts)") (simp_all add: createTransactionPayload_def)
  have "payload' = [(''from'', opt_from opts), (''to_'', opt_to opts), (''amount'', JStr s),
                   (''nonce'', JNum (to_number (opt_nonce opts))),
                   (''ou'', JStr (if num_less (to_number (opt_amount opts)) (num_of_int 1000) then ''1'' else ''3'')),
                   (''timestamp'', JNum (num_div_const (num_of_int now) 1000))]"
    using assms False s by (simp add: createTransactionPayload_def)
  then have "obj_get payload' ''ou''
             = JStr (if num_less (to_number (opt_amount opts)) (num_of_int 1000) then ''1'' else ''3'')"
    by (simp add: obj_get_def)
  then show ?thesis using False by metis
qed


lemma num_less_1000:
  "num_less (Fin m e) (num_of_int 1000) \<longleftrightarrow> fin_num m e < 1000 * fin_den e"
proof -
  have "num_of_int 1000 = Fin 125 3" by code_simp
  moreover have "fin_den 3 = 1" "fin_num 125 3 = 1000" by code_simp+
  ultimately show ?thesis by (simp add: num_less_def)
qed

text \<open>
  Claim C7. The conversion of an amount to micro-units is exact decimal-string
  arithmetic on every path that converts an amount for a transaction, and
  \<open>octToMicro("1.5") = "1500000"\<close>, \<open>octToMicro("0.000001") = "1"\<close>,
  \<open>microToOct("1500000") = 1.5\<close>. \<open>octToMicro\<close> is such a conversion, and the three
  values are as claimed (\<open>octToMicro_examples\<close> below; \<open>Fin 3 (- 1)\<close> is \<open>1.5\<close>). The path
  that signs, \<open>signTransactionOnly\<close>, multiplies \<open>parseFloat(amount)\<close> by \<open>1000000\<close> in
  floating point and takes the floor: for the amount \<open>"2.01"\<close> the signed transaction
  carries \<open>"2009999"\<close>, where \<open>octToMicro\<close> yields \<open>"2010000"\<close>.
\<close>

theorem signTransactionOnly_amount_is_rounded:
  "signTransactionOnly test_platform 1700000000000 1700000000000 test_tx_params test_wallet
     = Inr test_signed
   \<and> get_prop test_tx_params ''amount'' = JStr ''2.01''
   \<and> obj_get test_signed ''amount'' = JStr ''2009999''
   \<and> octToMicro (JStr ''2.01'') = Inr ''2010000''"
  by code_simp

theorem signTransactionOnly_amount_is_rounded_witness:
  "map_sum id (\<lambda>tx. obj_get tx ''amount'')
     (signTransactionOnly test_platform 1700000000000 1700000000000 test_tx_params test_wallet)
   = Inr (JStr ''2009999'')
   \<and> octToMicro (get_prop test_tx_params ''amount'') = Inr ''2010000''"
  using signTransactionOnly_amount_is_rounded by simp

lemma octToMicro_examples:
  "octToMicro (JStr ''1.5'') = Inr ''1500000''"
  "octToMicro (JStr ''0.000001'') = Inr ''1''"
  "microToOct (JStr ''1500000'') = Inr (Fin 3 (- 1))"
  by code_simp+

text \<open>
  Claim C8, as stated: in every transaction payload that is built, \<open>ou\<close> is selected by
  a threshold on the amount. \<open>signTransactionOnly\<close> gives \<open>ou = "2000"\<close> to an amount of 5
  and to an amount of 5000, and \<open>ou = "1000000"\<close> to an amount of 5 that comes with a fee
  of 1, while \<open>createTransactionPayload\<close> gives \<open>ou = "1"\<close> to an amount of 5.
\<close>

theorem ou_is_not_selected_by_amount:
  "map_sum id (\<lambda>tx. obj_get tx ''ou'')
     (signTransactionOnly test_platform 1700000000000 1700000000000
        (JObj [(''to'', JStr ''octB''), (''amount'', JNum (num_of_int 5))]) test_wallet)
     = Inr (JStr ''2000'')
   \<and> map_sum id (\<lambda>tx. obj_get tx ''ou'')
     (signTransactionOnly test_platform 1700000000000 1700000000000
        (JObj [(''to'', JStr ''octB''), (''amount'', JNum (num_of_int 5000))]) test_wallet)
     = Inr (JStr ''2000'')
   \<and> map_sum id (\<lambda>tx. obj_get tx ''ou'')
     (signTransactionOnly test_platform 1700000000000 1700000000000
        (JObj [(''to'', JStr ''octB''), (''amount'', JNum (num_of_int 5)), (''fee'', JNum (num_of_int 1))])
        test_wallet)
     = Inr (JStr ''1000000'')
   \<and> map_sum id (\<lambda>(p, m). obj_get p ''ou'')
     (createTransactionPayload 1700000000000
        \<lparr>opt_from = JStr ''octA'', opt_to = JStr ''octB'', opt_amount = JNum (num_of_int 5),
         opt_nonce = JNum (num_of_int 8), opt_message = JUndefined\<rparr>)
     = Inr (JStr ''1'')"
  by code_simp

text \<open>
  Claim C8, amended. \<open>createTransactionPayload\<close> selects \<open>ou\<close> by a threshold on the
  amount: \<open>"1"\<close> where the amount, a number of whole tokens (for a string, the value of
  \<open>microToOct\<close>), is below 1000, and \<open>"3"\<close> otherwise. \<open>signTransactionOnly\<close> does not
  look at the amount: \<open>ou\<close> is \<open>String(Math.floor(fee * 1000000))\<close> where the request
  has a truthy \<open>fee\<close>, and \<open>"2000"\<close> otherwise.
\<close>

theorem ou_selection:
  "(createTransactionPayload now opts = Inr (payload', msg) \<longrightarrow>
      (obj_get payload' ''ou'' = JStr ''1'' \<or> obj_get payload' ''ou'' = JStr ''3'')
      \<and> (\<forall>m e. opt_amount opts = JNum (Fin m e) \<longrightarrow>
             (obj_get payload' ''ou'' = JStr ''1'' \<longleftrightarrow> fin_num m e < 1000 * fin_den e))
      \<and> (\<forall>n. is_string (opt_amount opts) \<and> microToOct (opt_amount opts) = Inr n \<longrightarrow>
             (obj_get payload' ''ou'' = JStr ''1'' \<longleftrightarrow> num_less n (num_of_int 1000))))
   \<and> (signTransactionOnly P t t' params wallet = Inr tx \<longrightarrow>
      obj_get tx ''ou''
        = (if truthy (get_prop (tx_params params) ''fee'')
           then JStr (num_to_string (math_floor
                  (num_times (to_number (get_prop (tx_params params) ''fee'')) (num_of_int 1000000))))
           else JStr ''2000''))"
proof (intro conjI impI)
  assume c: "createTransactionPayload now opts = Inr (payload', msg)"
  then obtain a where a:
    "if is_string (opt_amount opts) then microToOct (opt_amount opts) = Inr (to_number a)
     else a = opt_amount opts"
    "obj_get payload' ''ou'' = JStr (if num_less (to_number a) (num_of_int 1000) then ''1'' else ''3'')"
    using createTransactionPayload_ou by blast
  show "obj_get payload' ''ou'' = JStr ''1'' \<or> obj_get payload' ''ou'' = JStr ''3''"
    using a(2) by simp
  show "\<forall>m e. opt_amount opts = JNum (Fin m e) \<longrightarrow>
          (obj_get payload' ''ou'' = JStr ''1'' \<longleftrightarrow> fin_num m e < 1000 * fin_den e)"
  proof (intro allI impI)
    fix m e assume n: "opt_amount opts = JNum (Fin m e)"
    then have "a = JNum (Fin m e)" using a(1) by (simp add: is_string_def)
    then show "obj_get payload' ''ou'' = JStr ''1'' \<longleftrightarrow> fin_num m e < 1000 * fin_den e"
      using a(2) num_less_1000 [of m e] by (simp add: to_number_def)
  qed
  show "\<forall>n. is_string (opt_amount opts) \<and> microToOct (opt_amount opts) = Inr n \<longrightarrow>
          (obj_get payload' ''ou'' = JStr ''1'' \<longleftrightarrow> num_less n (num_of_int 1000))"
    using a by auto
next
  assume s: "signTransactionOnly P t t' params wallet = Inr tx"
  show "obj_get tx ''ou''
        = (if truthy (get_prop (tx_params params) ''fee'')
           then JStr (num_to_string (math_floor
                  (num_times (to_number (get_prop (tx_params params) ''fee'')) (num_of_int 1000000))))
           else JStr ''2000'')"
    unfolding signed_fields(5) [OF s] by (simp add: tx_ou_def)
qed

theorem ou_selection_witness:
  "createTransactionPayload 1700000000000 test_options = Inr (test_payload, JUndefined)
   \<and> opt_amount test_options = JNum (Fin 5 0)
   \<and> fin_num 5 0 < 1000 * fin_den 0
   \<and> obj_get test_payload ''ou'' = JStr ''1''
   \<and> signTransactionOnly test_platform 1700000000000 1700000000000 test_tx_params test_wallet
       = Inr test_signed
   \<and> \<not> truthy (get_prop (tx_params test_tx_params) ''fee'')
   \<and> obj_get test_signed ''ou'' = JStr ''2000''"
proof -
  have c: "createTransactionPayload 1700000000000 test_options = Inr (test_payload, JUndefined)"
    by code_simp
  have s: "signTransactionOnly test_platform 1700000000000 1700000000000 test_tx_params test_wallet
             = Inr test_signed"
    by code_simp
  have a: "opt_amount test_options = JNum (Fin 5 0)" by code_simp
  have l: "fin_num 5 0 < 1000 * fin_den 0" by code_simp
  have f: "\<not> truthy (get_prop (tx_params test_tx_params) ''fee'')" by code_simp
  show ?thesis
    using ou_selection [of 1700000000000 test_options test_payload JUndefined test_platform
        1700000000000 1700000000000 test_tx_params test_wallet test_signed]
      c s a l f by simp
qed

subsection \<open>The session\<close>

lemma load_session_state:
  "snd (load_session P s) = s \<or> (\<exists>v. snd (load_session P s) = s\<lparr>activeSessionCache := v\<rparr>)"
  by (auto simp: load_session_def split: option.splits)

lemma getWalletFromStorage_state:
  "snd (getWalletFromStorage P s) = snd (load_session P s)"
  by (auto simp: getWalletFromStorage_def split: prod.splits sum.splits)

lemma legacy_fallback_null:
  "legacy_fallback session = JNull \<longleftrightarrow> \<not> (truthy session \<and> has_key session)"
  by (auto simp: legacy_fallback_def has_key_def truthy_def)

lemma load_session_key:
  assumes "load_session P s = (session, s')"
  shows "memorySessionKey s' = memorySessionKey s"
  using load_session_state [of P s] assms by auto

lemma getWalletFromStorage_decrypted:
  assumes "load_session P s = (session, s')"
    and "truthy session" "truthy (get_prop session ''encryptedPrivateKey'')"
    and "truthy (memorySessionKey s)"
    and "decryptSession P (get_prop session ''encryptedPrivateKey'') (memorySessionKey s) = Inr k"
    and "truthy k"
  shows "fst (getWalletFromStorage P s)
         = JObj (obj_set (obj_set (own_entries session) ''privateKey'' k) ''privateKeyB64'' k)"
  using assms load_session_key [OF assms(1)] by (simp add: getWalletFromStorage_def)

lemma getWalletFromStorage_fallback:
  assumes "load_session P s = (session, s')"
    and "\<not> (\<exists>k. truthy session \<and> truthy (get_prop session ''encryptedPrivateKey'')
               \<and> truthy (memorySessionKey s)
               \<and> decryptSession P (get_prop session ''encryptedPrivateKey'') (memorySessionKey s) = Inr k
               \<and> truthy k)"
  shows "fst (getWalletFromStorage P s) = legacy_fallback session"
proof (cases "truthy session \<and> truthy (get_prop session ''encryptedPrivateKey'')
               \<and> truthy (memorySessionKey s)")
  case False
  then show ?thesis
    using assms(1) load_session_key [OF assms(1)] by (auto simp: getWalletFromStorage_def)
next
  case True
  show ?thesis
  proof (cases "decryptSession P (get_prop session ''encryptedPrivateKey'') (memorySessionKey s)")
    case (Inl e)
    then show ?thesis
      using assms(1) True load_session_key [OF assms(1)] by (simp add: getWalletFromStorage_def)
  next
    case (Inr k)
    then have "\<not> truthy k" using assms(2) True by blast
    then show ?thesis
      using assms(1) True Inr load_session_key [OF assms(1)] by (simp add: getWalletFromStorage_def)
  qed
qed

text \<open>
  Claim C1, amended. With \<open>session\<close> the cached session, or the stored one where the
  cache is empty: where the session has \<open>encryptedPrivateKey\<close>, the session key is in
  memory and \<open>decryptSession\<close> returns a non-empty plaintext, the wallet returned has
  that plaintext as \<open>privateKey\<close> and \<open>privateKeyB64\<close>. In every other case (a half
  missing, the decryption throwing or returning nothing) the session itself is returned
  if it has a non-empty \<open>privateKey\<close> or \<open>privateKeyB64\<close> of its own, and \<open>null\<close> if it
  has not; so the result is \<open>null\<close> exactly when neither source gives a key.
\<close>

theorem getWalletFromStorage_cases:
  assumes "load_session P s = (session, s')"
  shows "(\<forall>k. truthy session \<and> truthy (get_prop session ''encryptedPrivateKey'')
               \<and> truthy (memorySessionKey s)
               \<and> decryptSession P (get_prop session ''encryptedPrivateKey'') (memorySessionKey s) = Inr k
               \<and> truthy k
            \<longrightarrow> get_prop (fst (getWalletFromStorage P s)) ''privateKey'' = k
              \<and> get_prop (fst (getWalletFromStorage P s)) ''privateKeyB64'' = k)
       \<and> (\<not> (\<exists>k. truthy session \<and> truthy (get_prop session ''encryptedPrivateKey'')
               \<and> truthy (memorySessionKey s)
               \<and> decryptSession P (get_prop session ''encryptedPrivateKey'') (memorySessionKey s) = Inr k
               \<and> truthy k)
            \<longrightarrow> fst (getWalletFromStorage P s)
                = (if truthy session \<and> has_key session then session else JNull))
       \<and> (fst (getWalletFromStorage P s) = JNull
            \<longleftrightarrow> \<not> (\<exists>k. truthy session \<and> truthy (get_prop session ''encryptedPrivateKey'')
                     \<and> truthy (memorySessionKey s)
                     \<and> decryptSession P (get_prop session ''encryptedPrivateKey'') (memorySessionKey s) = Inr k
                     \<and> truthy k)
                \<and> \<not> (truthy session \<and> has_key session))"
proof -
  define U where "U \<longleftrightarrow> (\<exists>k. truthy session \<and> truthy (get_prop session ''encryptedPrivateKey'')
               \<and> truthy (memorySessionKey s)
               \<and> decryptSession P (get_prop session ''encryptedPrivateKey'') (memorySessionKey s) = Inr k
               \<and> truthy k)"
  let ?w = "fst (getWalletFromStorage P s)"
  have fb: "legacy_fallback session = (if truthy session \<and> has_key session then session else JNull)"
    by (simp add: legacy_fallback_def has_key_def)
  have c1: "get_prop ?w ''privateKey'' = k \<and> get_prop ?w ''privateKeyB64'' = k"
    if "truthy session \<and> truthy (get_prop session ''encryptedPrivateKey'')
               \<and> truthy (memorySessionKey s)
               \<and> decryptSession P (get_prop session ''encryptedPrivateKey'') (memorySessionKey s) = Inr k
               \<and> truthy k" for k
  proof -
    have w: "?w = JObj (obj_set (obj_set (own_entries session) ''privateKey'' k) ''privateKeyB64'' k)"
      using getWalletFromStorage_decrypted [OF assms] that by blast
    have "get_prop ?w ''privateKeyB64'' = k"
      unfolding w by (simp add: get_prop_def obj_get_obj_set_same)
    moreover have "get_prop ?w ''privateKey'' = k"
      unfolding w by (simp add: get_prop_def obj_get_obj_set_same obj_get_obj_set_other)
    ultimately show ?thesis by simp
  qed
  have c2: "?w = (if truthy session \<and> has_key session then session else JNull)" if "\<not> U"
    using getWalletFromStorage_fallback [OF assms that [unfolded U_def]] fb by simp
  have c3a: "?w \<noteq> JNull" if "U"
  proof -
    from that [unfolded U_def]
    obtain k where k: "truthy session \<and> truthy (get_prop session ''encryptedPrivateKey'')
               \<and> truthy (memorySessionKey s)
               \<and> decryptSession P (get_prop session ''encryptedPrivateKey'') (memorySessionKey s) = Inr k
               \<and> truthy k"
      by blast
    have "?w = JObj (obj_set (obj_set (own_entries session) ''privateKey'' k) ''privateKeyB64'' k)"
      using getWalletFromStorage_decrypted [OF assms] k by blast
    then show ?thesis by simp
  qed
  have c3b: "?w = JNull \<longleftrightarrow> \<not> (truthy session \<and> has_key session)" if "\<not> U"
    using c2 [OF that] by (auto simp: truthy_def)
  have c3: "?w = JNull \<longleftrightarrow> \<not> U \<and> \<not> (truthy session \<and> has_key session)"
    using c3a c3b by blast
  show ?thesis
    using c1 c2 c3 unfolding U_def by blast
qed

theorem getWalletFromStorage_cases_witness:
  "load_session test_platform unlocked_state = (test_session, unlocked_state)
   \<and> truthy test_session \<and> truthy (get_prop test_session ''encryptedPrivateKey'')
   \<and> truthy (memorySessionKey unlocked_state)
   \<and> decryptSession test_platform (get_prop test_session ''encryptedPrivateKey'')
        (memorySessionKey unlocked_state) = Inr (JStr test_seed)
   \<and> truthy (JStr test_seed)
   \<and> get_prop (fst (getWalletFromStorage test_platform unlocked_state)) ''privateKey'' = JStr test_seed
   \<and> get_prop (fst (getWalletFromStorage test_platform unlocked_state)) ''privateKeyB64'' = JStr test_seed
   \<and> fst (getWalletFromStorage test_platform unlocked_state) \<noteq> JNull"
proof -
  have l: "load_session test_platform unlocked_state = (test_session, unlocked_state)"
    by code_simp
  have h: "truthy test_session" "truthy (get_prop test_session ''encryptedPrivateKey'')"
    "truthy (memorySessionKey unlocked_state)"
    "decryptSession test_platform (get_prop test_session ''encryptedPrivateKey'')
        (memorySessionKey unlocked_state) = Inr (JStr test_seed)"
    "truthy (JStr test_seed)"
    by code_simp+
  show ?thesis
    using getWalletFromStorage_cases [OF l] l h by blast
qed

text \<open>
  Claim C1, as stated: \<open>getWalletFromStorage\<close> yields a key only if the session has
  \<open>encryptedPrivateKey\<close>, the in-memory session key is present and the decryption
  succeeds, and \<open>null\<close> otherwise. A cached session that has a plaintext \<open>privateKey\<close>
  and neither an \<open>encryptedPrivateKey\<close> nor a session key is returned as the wallet.
\<close>

theorem legacy_session_is_not_locked:
  "get_prop legacy_session ''encryptedPrivateKey'' = JUndefined
   \<and> memorySessionKey legacy_state = JNull
   \<and> fst (getWalletFromStorage test_platform legacy_state) = legacy_session
   \<and> legacy_session \<noteq> JNull
   \<and> get_prop legacy_session ''privateKey'' = JStr test_seed"
  by code_simp

subsection \<open>Approvals\<close>

lemma map_of_map_set_same: "map_of (map_set m k v) k = Some v"
proof (cases "k \<in> fst ` set m")
  case True
  then show ?thesis by (simp add: map_set_def map_of_update_same)
next
  case False
  then have "map_of m k = None" by (simp add: map_of_eq_None_iff)
  then show ?thesis using False by (simp add: map_set_def map_add_def)
qed

lemma getWalletFromStorage_keeps:
  "windows (snd (getWalletFromStorage P s)) = windows s"
  "dappApprovals (snd (getWalletFromStorage P s)) = dappApprovals s"
  "approval_promises (snd (getWalletFromStorage P s)) = approval_promises s"
  "dappConnections (snd (getWalletFromStorage P s)) = dappConnections s"
  using load_session_state [of P s] by (auto simp: getWalletFromStorage_state)

text \<open>
  Claim C3, as stated: every connect request creates a pending approval and opens the
  approval window before it resolves, the fast path being for methods other than
  connect. A connect request of an origin that is connected is answered at once from
  the stored connection: no approval is stored and no window opened.
\<close>

theorem connect_of_connected_origin_skips_approval:
  "is_connected connected_state ''https://d.app''
   \<and> handleConnect_start test_platform connected_state ''https://d.app'' (JStr ''D'') (JStr ''f.ico'')
        ''uuid-1'' 1700000000000
       = (Return (JObj [(''result'', JObj
            [(''accounts'', JArr [JStr test_address]), (''selectedAddress'', JStr test_address),
             (''networkId'', JStr ''mainnet''), (''chainId'', JNum (num_of_int 2))])]),
          connected_state)
   \<and> dappApprovals connected_state = []
   \<and> windows connected_state = []"
  by code_simp

text \<open>
  Claim C3, amended. A connect request of an origin that has no active connection
  stores a pending approval of type \<open>connect\<close> under a fresh id, with the wallet as it
  is then, opens the approval window with that id alone in its address, and waits for
  the decision. A connect request of an origin that has an active connection is
  answered at once with the address of that connection, and the state is unchanged.
\<close>

theorem handleConnect_start_cases:
  "(\<not> is_connected s origin \<longrightarrow>
      fst (handleConnect_start P s origin title favicon uuid now) = Await uuid
      \<and> map_of (dappApprovals (snd (handleConnect_start P s origin title favicon uuid now))) uuid
          = Some \<lparr>ap_type = ''connect'', ap_origin = origin,
                   ap_params = JObj [(''title'', title), (''favicon'', favicon)],
                   ap_wallet = fst (getWalletFromStorage P s), ap_timestamp = now\<rparr>
      \<and> windows (snd (handleConnect_start P s origin title favicon uuid now))
          = windows s @ [''index.html#/dapp/approve?id='' @ uuid]
      \<and> map_of (approval_promises (snd (handleConnect_start P s origin title favicon uuid now))) uuid
          = Some Pending)
   \<and> (is_connected s origin \<longrightarrow>
      snd (handleConnect_start P s origin title favicon uuid now) = s
      \<and> (\<exists>existing. map_of (dappConnections s) origin = Some existing
            \<and> fst (handleConnect_start P s origin title favicon uuid now)
                = Return (JObj [(''result'', JObj
                    [(''accounts'', JArr [get_prop existing ''address'']),
                     (''selectedAddress'', get_prop existing ''address''),
                     (''networkId'', js_or (get_prop existing ''networkId'') (JStr ''testnet'')),
                     (''chainId'', js_or (get_prop existing ''chainId'') (JNum (num_of_int 2)))])])))"
proof (intro conjI impI)
  assume n: "\<not> is_connected s origin"
  obtain wallet s1 where w: "getWalletFromStorage P s = (wallet, s1)"
    by (cases "getWalletFromStorage P s")
  have h: "handleConnect_start P s origin title favicon uuid now
           = (Await uuid, requestApproval s1 origin ''connect''
                (JObj [(''title'', title), (''favicon'', favicon)]) wallet uuid now)"
    using n w by (simp add: handleConnect_start_def)
  have k: "windows s1 = windows s" using getWalletFromStorage_keeps(1) [of P s] w by simp
  show "fst (handleConnect_start P s origin title favicon uuid now) = Await uuid"
    using h by simp
  show "map_of (dappApprovals (snd (handleConnect_start P s origin title favicon uuid now))) uuid
          = Some \<lparr>ap_type = ''connect'', ap_origin = origin,
                   ap_params = JObj [(''title'', title), (''favicon'', favicon)],
                   ap_wallet = fst (getWalletFromStorage P s), ap_timestamp = now\<rparr>"
    using h w by (simp add: requestApproval_def map_of_map_set_same)
  show "windows (snd (handleConnect_start P s origin title favicon uuid now))
          = windows s @ [''index.html#/dapp/approve?id='' @ uuid]"
    using h k by (simp add: requestApproval_def)
  show "map_of (approval_promises (snd (handleConnect_start P s origin title favicon uuid now))) uuid
          = Some Pending"
    using h by (simp add: requestApproval_def map_of_map_set_same)
next
  assume c: "is_connected s origin"
  then obtain existing where e: "map_of (dappConnections s) origin = Some existing"
    by (auto simp: is_connected_def split: option.splits)
  show "snd (handleConnect_start P s origin title favicon uuid now) = s"
    using c by (simp add: handleConnect_start_def Let_def)
  show "\<exists>existing. map_of (dappConnections s) origin = Some existing
            \<and> fst (handleConnect_start P s origin title favicon uuid now)
                = Return (JObj [(''result'', JObj
                    [(''accounts'', JArr [get_prop existing ''address'']),
                     (''selectedAddress'', get_prop existing ''address''),
                     (''networkId'', js_or (get_prop existing ''networkId'') (JStr ''testnet'')),
                     (''chainId'', js_or (get_prop existing ''chainId'') (JNum (num_of_int 2)))])])"
    using c e by (simp add: handleConnect_start_def Let_def)
qed

theorem handleConnect_start_cases_witness:
  "\<not> is_connected unlocked_state ''https://d.app''
   \<and> fst (handleConnect_start test_platform unlocked_state ''https://d.app'' (JStr ''D'') (JStr ''f.ico'')
          ''uuid-1'' 1700000000000) = Await ''uuid-1''
   \<and> windows (snd (handleConnect_start test_platform unlocked_state ''https://d.app'' (JStr ''D'')
          (JStr ''f.ico'') ''uuid-1'' 1700000000000))
       = [''index.html#/dapp/approve?id=uuid-1'']
   \<and> is_connected connected_state ''https://d.app''
   \<and> snd (handleConnect_start test_platform connected_state ''https://d.app'' (JStr ''D'') (JStr ''f.ico'')
          ''uuid-1'' 1700000000000) = connected_state"
proof -
  have a: "\<not> is_connected unlocked_state ''https://d.app''" by code_simp
  have b: "is_connected connected_state ''https://d.app''" by code_simp
  have w: "windows unlocked_state = []" by code_simp
  show ?thesis
    using handleConnect_start_cases [of unlocked_state "''https://d.app''" test_platform "JStr ''D''"
        "JStr ''f.ico''" "''uuid-1''" 1700000000000]
      handleConnect_start_cases [of connected_state "''https://d.app''" test_platform "JStr ''D''"
        "JStr ''f.ico''" "''uuid-1''" 1700000000000]
      a b w by simp
qed

subsection \<open>Expired requests\<close>

text \<open>
  Claim C2, as stated: a pending approval that is older than five minutes is removed by
  the sweep, and its continuation, if pending, is rejected with a timeout error. The
  approval \<open>uuid-1\<close> was created at time \<open>0\<close>; after \<open>clearExpiredRequests\<close> at \<open>300001\<close>
  the request is gone from \<open>DappService\<close>, while the worker holds the approval as before
  and its promise is pending.
\<close>

theorem clearExpiredRequests_rejects_nothing:
  "getPendingRequest (service test_extension) ''uuid-1''
     = Some \<lparr>request = [(''type'', JStr ''connect'')], createdAt = 0\<rparr>
   \<and> ds_pendingRequests (service (dappService_clearExpiredRequests test_extension 300001))
     = [(''req-2'', \<lparr>request = [(''type'', JStr ''signMessage'')], createdAt = 200000\<rparr>)]
   \<and> map_of (dappApprovals (background (dappService_clearExpiredRequests test_extension 300001)))
        ''uuid-1''
     = Some \<lparr>ap_type = ''connect'', ap_origin = ''https://d.app'',
              ap_params = JObj [(''title'', JStr ''D''), (''favicon'', JStr ''f.ico'')],
              ap_wallet = test_wallet, ap_timestamp = 0\<rparr>
   \<and> map_of (approval_promises (background (dappService_clearExpiredRequests test_extension 300001)))
        ''uuid-1''
     = Some Pending"
  by code_simp

text \<open>
  Claim C2, amended. \<open>clearExpiredRequests\<close>, called at time \<open>now\<close>, removes from the
  pending requests of \<open>DappService\<close> those created more than five minutes (300000 ms)
  before \<open>now\<close> and keeps the others in their order. It rejects nothing: the approvals
  that the background worker holds, and their promises, are as they were.
\<close>

theorem clearExpiredRequests_effect:
  "ds_pendingRequests (service (dappService_clearExpiredRequests w now))
     = filter (\<lambda>(rid, req). now - createdAt req \<le> 300000) (ds_pendingRequests (service w))
   \<and> background (dappService_clearExpiredRequests w now) = background w"
proof -
  have "(\<lambda>(rid :: string, req). \<not> (now - createdAt req > expiry))
        = (\<lambda>(rid, req). now - createdAt req \<le> 300000)"
    by (auto simp: expiry_def)
  then have "filter (\<lambda>(rid :: string, req). \<not> (now - createdAt req > expiry)) (ds_pendingRequests (service w))
        = filter (\<lambda>(rid, req). now - createdAt req \<le> 300000) (ds_pendingRequests (service w))"
    by (rule arg_cong)
  then show ?thesis
    by (simp add: dappService_clearExpiredRequests_def clearExpiredRequests_def)
qed

subsection \<open>The timeout of a request of the in-page provider\<close>

lemma map_of_map_set_other: "k' \<noteq> k \<Longrightarrow> map_of (map_set m k v) k' = map_of m k'"
  by (auto simp: map_set_def map_of_update_other map_add_def split: option.splits)

lemma settle_other: "k' \<noteq> k \<Longrightarrow> map_of (settle ps k v) k' = map_of ps k'"
  by (simp add: settle_def map_of_map_set_other)

lemma settle_pending: "map_of ps k = Some Pending \<Longrightarrow> map_of (settle ps k v) k = Some v"
  by (simp add: settle_def map_of_map_set_same)

lemma strict_eq_JStr: "strict_eq a (JStr x) = (a = JStr x)"
  by (cases a) (auto simp: strict_eq_def)

lemma timeout_callback_fields:
  "requestId (timeout_callback s r) = requestId s"
  "timers (timeout_callback s r) = timers s"
  by (simp_all add: timeout_callback_def)

lemma timeout_callback_other:
  assumes "r \<noteq> rid"
  shows "(rid \<in> set (pendingRequests (timeout_callback s r))) = (rid \<in> set (pendingRequests s))"
    and "map_of (promises (timeout_callback s r)) rid = map_of (promises s) rid"
  using assms by (auto simp: timeout_callback_def settle_other)

lemma timeout_callback_live:
  assumes "rid \<in> set (pendingRequests s)" and "map_of (promises s) rid = Some Pending"
  shows "rid \<notin> set (pendingRequests (timeout_callback s rid))"
    and "map_of (promises (timeout_callback s rid)) rid = Some (Rejected timeout_error)"
  using assms by (simp_all add: timeout_callback_def settle_pending)

lemma timeout_callback_dead:
  "rid \<notin> set (pendingRequests s) \<Longrightarrow> timeout_callback s rid = s"
  by (simp add: timeout_callback_def)

lemma run_due_fields:
  "requestId (run_due now ts s) = requestId s \<and> timers (run_due now ts s) = timers s"
  by (induction now ts s rule: run_due.induct) (simp_all add: timeout_callback_fields)

lemma run_due_dead:
  assumes "rid \<notin> set (pendingRequests s)"
    and "map_of (promises s) rid = Some (Rejected timeout_error)"
  shows "rid \<notin> set (pendingRequests (run_due now ts s))
         \<and> map_of (promises (run_due now ts s)) rid = Some (Rejected timeout_error)"
  using assms
proof (induction now ts s rule: run_due.induct)
  case (1 now s)
  then show ?case by simp
next
  case (2 now r due ts s)
  show ?case
  proof (cases "due \<le> now")
    case True
    have "rid \<notin> set (pendingRequests (timeout_callback s r))
          \<and> map_of (promises (timeout_callback s r)) rid = Some (Rejected timeout_error)"
    proof (cases "r = rid")
      case True
      then show ?thesis using "2.prems" by (simp add: timeout_callback_dead)
    next
      case False
      then show ?thesis using "2.prems" by (simp add: timeout_callback_other)
    qed
    then show ?thesis using True "2.IH"(1) by simp
  next
    case False
    then show ?thesis using "2.IH"(2) "2.prems" by simp
  qed
qed

lemma run_due_live:
  assumes "rid \<in> set (pendingRequests s)" and "map_of (promises s) rid = Some Pending"
  shows "(rid \<in> set (pendingRequests (run_due now ts s))
           \<and> map_of (promises (run_due now ts s)) rid = Some Pending
           \<and> (\<forall>due. (rid, due) \<in> set ts \<longrightarrow> now < due))
         \<or> (rid \<notin> set (pendingRequests (run_due now ts s))
           \<and> map_of (promises (run_due now ts s)) rid = Some (Rejected timeout_error))"
  using assms
proof (induction now ts s rule: run_due.induct)
  case (1 now s)
  then show ?case by simp
next
  case (2 now r due ts s)
  show ?case
  proof (cases "due \<le> now")
    case True
    note due = this
    show ?thesis
    proof (cases "r = rid")
      case True
      have "rid \<notin> set (pendingRequests (run_due now ts (timeout_callback s rid)))
            \<and> map_of (promises (run_due now ts (timeout_callback s rid))) rid
                = Some (Rejected timeout_error)"
        using "2.prems" by (intro run_due_dead timeout_callback_live)
      then show ?thesis using due True by simp
    next
      case False
      have "rid \<in> set (pendingRequests (timeout_callback s r))"
        and "map_of (promises (timeout_callback s r)) rid = Some Pending"
        using False "2.prems" by (simp_all add: timeout_callback_other)
      from "2.IH"(1) [OF due this] show ?thesis using due False by auto
    qed
  next
    case False
    from "2.IH"(2) [OF False "2.prems"] show ?thesis using False by auto
  qed
qed

lemma advance_fields:
  "requestId (advance s now) = requestId s"
  "pendingRequests (advance s now) = pendingRequests (run_due now (timers s) s)"
  "promises (advance s now) = promises (run_due now (timers s) s)"
  "set (timers (advance s now)) = {(r, due). (r, due) \<in> set (timers s) \<and> now < due}"
  by (auto simp: advance_def run_due_fields)

lemma advance_keeps:
  assumes "(rid \<in> set (pendingRequests s) \<and> map_of (promises s) rid = Some Pending
              \<and> (rid, d) \<in> set (timers s))
           \<or> (rid \<notin> set (pendingRequests s)
              \<and> map_of (promises s) rid = Some (Rejected timeout_error))"
    and "now < d"
  shows "(rid \<in> set (pendingRequests (advance s now))
              \<and> map_of (promises (advance s now)) rid = Some Pending
              \<and> (rid, d) \<in> set (timers (advance s now)))
           \<or> (rid \<notin> set (pendingRequests (advance s now))
              \<and> map_of (promises (advance s now)) rid = Some (Rejected timeout_error))"
  using assms run_due_live [of rid s now "timers s"] run_due_dead [of rid s now "timers s"]
  by (auto simp: advance_fields)

lemma advance_rejects:
  assumes "(rid \<in> set (pendingRequests s) \<and> map_of (promises s) rid = Some Pending
              \<and> (rid, d) \<in> set (timers s))
           \<or> (rid \<notin> set (pendingRequests s)
              \<and> map_of (promises s) rid = Some (Rejected timeout_error))"
    and "d \<le> now"
  shows "rid \<notin> set (pendingRequests (advance s now))
         \<and> map_of (promises (advance s now)) rid = Some (Rejected timeout_error)"
  using assms(1)
proof
  assume a: "rid \<in> set (pendingRequests s) \<and> map_of (promises s) rid = Some Pending
              \<and> (rid, d) \<in> set (timers s)"
  then have "\<not> (\<forall>due. (rid, due) \<in> set (timers s) \<longrightarrow> now < due)"
    using assms(2) by auto
  then show ?thesis
    using a run_due_live [of rid s now "timers s"] unfolding advance_fields by blast
next
  assume "rid \<notin> set (pendingRequests s)
              \<and> map_of (promises s) rid = Some (Rejected timeout_error)"
  then show ?thesis
    using run_due_dead [of rid s now "timers s"] by (simp add: advance_fields)
qed

lemma on_message_keeps:
  assumes "\<not> (from_window ev \<and> msg_type ev = JStr ''OCTRA_RESPONSE'' \<and> msg_id ev = Some rid)"
  shows "(rid \<in> set (pendingRequests (on_message s ev))) = (rid \<in> set (pendingRequests s))"
    and "map_of (promises (on_message s ev)) rid = map_of (promises s) rid"
    and "timers (on_message s ev) = timers s"
    and "requestId (on_message s ev) = requestId s"
  using assms
  by (auto simp: on_message_def strict_eq_JStr settle_other split: option.splits)

lemma sendRequest_keeps:
  assumes "rid \<le> requestId s"
  shows "(rid \<in> set (pendingRequests (snd (sendRequest s method params now))))
           = (rid \<in> set (pendingRequests s))"
    and "map_of (promises (snd (sendRequest s method params now))) rid = map_of (promises s) rid"
    and "(rid, d) \<in> set (timers s)
         \<Longrightarrow> (rid, d) \<in> set (timers (snd (sendRequest s method params now)))"
    and "rid \<le> requestId (snd (sendRequest s method params now))"
  using assms
  by (auto simp: sendRequest_def Let_def map_of_map_set_other)

lemma sendRequest_starts:
  assumes "sendRequest s method params t = (rid, s1)"
  shows "rid \<in> set (pendingRequests s1)" and "map_of (promises s1) rid = Some Pending"
    and "(rid, t + 300000) \<in> set (timers s1)" and "rid \<le> requestId s1"
  using assms
  by (auto simp: sendRequest_def Let_def map_of_map_set_same REQUEST_TIMEOUT_MS_def)

lemma inpage_run_keeps:
  assumes "rid \<le> requestId s"
    and "(rid \<in> set (pendingRequests s) \<and> map_of (promises s) rid = Some Pending
              \<and> (rid, d) \<in> set (timers s))
           \<or> (rid \<notin> set (pendingRequests s)
              \<and> map_of (promises s) rid = Some (Rejected timeout_error))"
    and "\<forall>e \<in> set evs.
           case e of
             Call m p now \<Rightarrow> True
           | Message ev \<Rightarrow>
               \<not> (from_window ev \<and> msg_type ev = JStr ''OCTRA_RESPONSE'' \<and> msg_id ev = Some rid)
           | Advance now \<Rightarrow> now < d"
  shows "rid \<le> requestId (inpage_run s evs)
         \<and> ((rid \<in> set (pendingRequests (inpage_run s evs))
              \<and> map_of (promises (inpage_run s evs)) rid = Some Pending
              \<and> (rid, d) \<in> set (timers (inpage_run s evs)))
           \<or> (rid \<notin> set (pendingRequests (inpage_run s evs))
              \<and> map_of (promises (inpage_run s evs)) rid = Some (Rejected timeout_error)))"
  using assms unfolding inpage_run_def
proof (induction evs arbitrary: s)
  case Nil
  then show ?case by simp
next
  case (Cons e evs)
  have "rid \<le> requestId (inpage_step s e)
        \<and> ((rid \<in> set (pendingRequests (inpage_step s e))
              \<and> map_of (promises (inpage_step s e)) rid = Some Pending
              \<and> (rid, d) \<in> set (timers (inpage_step s e)))
           \<or> (rid \<notin> set (pendingRequests (inpage_step s e))
              \<and> map_of (promises (inpage_step s e)) rid = Some (Rejected timeout_error)))"
  proof (cases e)
    case (Call m p now)
    then show ?thesis using Cons.prems(1,2) by (auto simp: sendRequest_keeps)
  next
    case (Message ev)
    then have "\<not> (from_window ev \<and> msg_type ev = JStr ''OCTRA_RESPONSE'' \<and> msg_id ev = Some rid)"
      using Cons.prems(3) by simp
    then show ?thesis using Message Cons.prems(1,2) by (simp add: on_message_keeps)
  next
    case (Advance now)
    then have "now < d" using Cons.prems(3) by simp
    from advance_keeps [OF Cons.prems(2) this] show ?thesis
      using Advance Cons.prems(1) by (simp add: advance_fields(1))
  qed
  then show ?case using Cons.IH [of "inpage_step s e"] Cons.prems(3) by simp
qed

text \<open>
  Claim C9, as stated: a request of the in-page provider that has had no matching
  response after 300 seconds is removed from the table and its promise rejected with a
  \<open>{code, message}\<close> whose code is 4900. The first request of a provider, sent at time
  \<open>0\<close> and not answered, is rejected at time \<open>300000\<close> with the code 4100.
\<close>

theorem request_timeout_code_is_4100:
  "fst (sendRequest inpage_init ''connect'' (JObj []) 0) = 1
   \<and> pendingRequests (advance (snd (sendRequest inpage_init ''connect'' (JObj []) 0)) 300000) = []
   \<and> map_of (promises (advance (snd (sendRequest inpage_init ''connect'' (JObj []) 0)) 300000)) 1
       = Some (Rejected (JObj [(''code'', JNum (num_of_int 4100)),
                               (''message'', JStr ''Request timeout'')]))
   \<and> JNum (num_of_int 4100) \<noteq> JNum (num_of_int 4900)"
  by code_simp

text \<open>
  Claim C9, amended. A request sent at time \<open>t\<close> gets an id \<open>rid\<close>. Whatever happens
  before \<open>t + 300000\<close> (other requests, messages that are not a response from the window
  for \<open>rid\<close>, the passing of time), once the time is \<open>t + 300000\<close> or later the table has
  no entry for \<open>rid\<close> and the promise of the request is rejected with
  \<open>{code: 4100, message: 'Request timeout'}\<close>.
\<close>

theorem request_timeout_rejects:
  assumes "sendRequest s method params t = (rid, s1)"
    and "\<forall>e \<in> set evs.
           case e of
             Call m p now \<Rightarrow> True
           | Message ev \<Rightarrow>
               \<not> (from_window ev \<and> msg_type ev = JStr ''OCTRA_RESPONSE'' \<and> msg_id ev = Some rid)
           | Advance now \<Rightarrow> now < t + 300000"
    and "t + 300000 \<le> n"
  shows "rid \<notin> set (pendingRequests (advance (inpage_run s1 evs) n))
         \<and> map_of (promises (advance (inpage_run s1 evs) n)) rid
             = Some (Rejected (JObj [(''code'', JNum (num_of_int 4100)),
                                     (''message'', JStr ''Request timeout'')]))"
proof -
  note start = sendRequest_starts [OF assms(1)]
  have "rid \<le> requestId (inpage_run s1 evs)
         \<and> ((rid \<in> set (pendingRequests (inpage_run s1 evs))
              \<and> map_of (promises (inpage_run s1 evs)) rid = Some Pending
              \<and> (rid, t + 300000) \<in> set (timers (inpage_run s1 evs)))
           \<or> (rid \<notin> set (pendingRequests (inpage_run s1 evs))
              \<and> map_of (promises (inpage_run s1 evs)) rid = Some (Rejected timeout_error)))"
    using start assms(2) by (intro inpage_run_keeps) simp_all
  then have "rid \<notin> set (pendingRequests (advance (inpage_run s1 evs) n))
         \<and> map_of (promises (advance (inpage_run s1 evs) n)) rid = Some (Rejected timeout_error)"
    using assms(3) by (intro advance_rejects [where d = "t + 300000"]) simp_all
  then show ?thesis by (simp add: timeout_error_def)
qed

theorem request_timeout_rejects_witness:
  "sendRequest inpage_init ''connect'' (JObj []) 5
     = (1, snd (sendRequest inpage_init ''connect'' (JObj []) 5))
   \<and> 1 \<notin> set (pendingRequests (advance (inpage_run (snd (sendRequest inpage_init ''connect'' (JObj []) 5))
        [Call ''getAccounts'' (JObj []) 10,
         Message \<lparr>from_window = True, msg_type = JStr ''OCTRA_RESPONSE'', msg_id = Some 2,
                  msg_result = JArr [], msg_error = JUndefined\<rparr>,
         Advance 300004]) 300005))
   \<and> map_of (promises (advance (inpage_run (snd (sendRequest inpage_init ''connect'' (JObj []) 5))
        [Call ''getAccounts'' (JObj []) 10,
         Message \<lparr>from_window = True, msg_type = JStr ''OCTRA_RESPONSE'', msg_id = Some 2,
                  msg_result = JArr [], msg_error = JUndefined\<rparr>,
         Advance 300004]) 300005)) 1
       = Some (Rejected (JObj [(''code'', JNum (num_of_int 4100)),
                               (''message'', JStr ''Request timeout'')]))"
proof -
  have a: "sendRequest inpage_init ''connect'' (JObj []) 5
           = (1, snd (sendRequest inpage_init ''connect'' (JObj []) 5))"
    by code_simp
  show ?thesis
    using a request_timeout_rejects [OF a, of
        "[Call ''getAccounts'' (JObj []) 10,
          Message \<lparr>from_window = True, msg_type = JStr ''OCTRA_RESPONSE'', msg_id = Some 2,
                   msg_result = JArr [], msg_error = JUndefined\<rparr>,
          Advance 300004]" 300005]
    by simp
qed

subsection \<open>Signing a message and verifying it\<close>

lemma strict_eq_JStr_left: "strict_eq (JStr x) b = (b = JStr x)"
  by (auto simp: strict_eq_def)

lemma signMessageWithKey_signs:
  assumes "atob P (to_string privKey) = Some kb"
    and "sk = (if length kb = 32 then snd (keyPair_fromSeed P kb) else kb)"
    and "length sk = 64"
  shows "signMessageWithKey P (JObj entries) privKey
         = Inr (btoa P (sign_detached P (utf8 (createSigningMessage entries)) sk))"
proof (cases "length kb = 32")
  case True
  obtain pk0 sk0 where k: "keyPair_fromSeed P kb = (pk0, sk0)" by (cases "keyPair_fromSeed P kb")
  then have "sk0 = sk" using assms(2) True by simp
  then show ?thesis
    using assms(1,3) True k
    by (simp add: signMessageWithKey_def Let_def nacl_fromSeed_def nacl_sign_detached_def
          own_entries_def createSigningMessage_def serializePayload_def MESSAGE_PREFIX_def)
next
  case False
  then have "kb = sk" using assms(2) by simp
  then show ?thesis
    using assms(1,3) False
    by (simp add: signMessageWithKey_def Let_def nacl_sign_detached_def
          own_entries_def createSigningMessage_def serializePayload_def MESSAGE_PREFIX_def)
qed

lemma verifyOSM1Signature_checks:
  assumes "atob P (signature response) = Some sg" and "atob P (publicKey response) = Some pk"
    and "length sg = 64" and "length pk = 32"
  shows "verifyOSM1Signature P now response options
         = \<lparr>valid = (verify_detached P (utf8 (createSigningMessage (payload response))) sg pk
                    \<and> obj_get (payload response) ''version'' = JStr ''OSM-1''
                    \<and> (\<not> truthy (expectedDomain options)
                        \<or> strict_eq (obj_get (payload response) ''domain'') (expectedDomain options))
                    \<and> (\<not> (if checkExpiry options = JUndefined then True
                             else truthy (checkExpiry options))
                        \<or> \<not> truthy (obj_get (payload response) ''expiresAt'')
                        \<or> num_less (num_of_int now)
                             (to_number (obj_get (payload response) ''expiresAt'')))
                    \<and> address response = JStr (''oct'' @ base58Encode (sha256 P pk))),
            checks = Some
              \<lparr>signatureValid = verify_detached P (utf8 (createSigningMessage (payload response))) sg pk,
               versionValid = (obj_get (payload response) ''version'' = JStr ''OSM-1''),
               domainMatch = (\<not> truthy (expectedDomain options)
                        \<or> strict_eq (obj_get (payload response) ''domain'') (expectedDomain options)),
               notExpired = (\<not> (if checkExpiry options = JUndefined then True
                             else truthy (checkExpiry options))
                        \<or> \<not> truthy (obj_get (payload response) ''expiresAt'')
                        \<or> num_less (num_of_int now)
                             (to_number (obj_get (payload response) ''expiresAt''))),
               addressMatch = (address response = JStr (''oct'' @ base58Encode (sha256 P pk)))\<rparr>,
            error = None\<rparr>"
  using assms
  by (simp add: verifyOSM1Signature_def nacl_verify_def Let_def strict_eq_JStr strict_eq_JStr_left
        OSM_VERSION_def)

lemma verifyOSM1Signature_valid:
  "case checks (verifyOSM1Signature P now response options) of
     None \<Rightarrow> \<not> valid (verifyOSM1Signature P now response options)
   | Some v \<Rightarrow>
       valid (verifyOSM1Signature P now response options)
         = (signatureValid v \<and> versionValid v \<and> domainMatch v \<and> notExpired v \<and> addressMatch v)
       \<and> (\<exists>pk. atob P (publicKey response) = Some pk
            \<and> addressMatch v
                = (address response = JStr (''oct'' @ base58Encode (sha256 P pk))))"
  by (auto simp: verifyOSM1Signature_def verify_failed_def Let_def strict_eq_JStr_left
           split: option.splits sum.splits)

text \<open>
  Claim C4, as stated: every payload without \<open>expiresAt\<close>, signed by \<open>signMessageWithKey\<close>
  with the key of the wallet, verifies with all five checks true. A payload without
  \<open>expiresAt\<close> whose \<open>version\<close> is \<open>OSM-2\<close> is signed as it is, and the envelope fails the
  version check of \<open>verifyOSM1Signature\<close>, which is called here without options.
\<close>

theorem other_version_fails_verification:
  "obj_get other_version_message ''expiresAt'' = JUndefined
   \<and> signMessageWithKey test_platform (JObj other_version_message) (JStr test_seed)
       = Inr (test_seed @ replicate 31 (CHR 0x00) @ [CHR 0xD6])
   \<and> verifyOSM1Signature test_platform 1700000000001
        \<lparr>payload = other_version_message,
         signature = test_seed @ replicate 31 (CHR 0x00) @ [CHR 0xD6],
         publicKey = test_seed, address = JStr test_address\<rparr> default_options
       = \<lparr>valid = False,
          checks = Some \<lparr>signatureValid = True, versionValid = False, domainMatch = True,
                         notExpired = True, addressMatch = True\<rparr>,
          error = None\<rparr>"
  by code_simp

text \<open>
  Claim C4, amended. Let the key of the wallet decode to a seed of 32 bytes or to a
  secret key of 64 bytes, let \<open>publicKey\<close> decode to the 32 bytes of a public key under
  which the platform verifies the 64-byte signature that it makes of the signing message
  with that secret key, let the base64 codec return the signature, and let \<open>address\<close> be
  \<open>oct\<close> followed by the base58 encoding of the SHA-256 hash of the public key. Then
  every payload whose \<open>version\<close> is \<open>OSM-1\<close> and which has no \<open>expiresAt\<close>, signed by
  \<open>signMessageWithKey\<close>, verifies with \<open>valid = true\<close> and all five checks true, when no
  domain is expected or the expected domain is that of the payload. In general, a result
  without checks is not valid, and a result with checks is valid exactly when the five
  checks are all true, where \<open>addressMatch\<close> says that \<open>address\<close> is \<open>oct\<close> followed by the
  base58 encoding of the SHA-256 hash of the decoded \<open>publicKey\<close>.
\<close>

theorem sign_then_verify:
  "(atob P (to_string privKey) = Some kb
     \<and> sk = (if length kb = 32 then snd (keyPair_fromSeed P kb) else kb)
     \<and> length sk = 64
     \<and> sg = sign_detached P (utf8 (createSigningMessage entries)) sk
     \<and> length sg = 64
     \<and> atob P (btoa P sg) = Some sg
     \<and> atob P pubKey = Some pk
     \<and> length pk = 32
     \<and> verify_detached P (utf8 (createSigningMessage entries)) sg pk
     \<and> addr = JStr (''oct'' @ base58Encode (sha256 P pk))
     \<and> obj_get entries ''version'' = JStr ''OSM-1''
     \<and> obj_get entries ''expiresAt'' = JUndefined
     \<and> (\<not> truthy (expectedDomain options)
         \<or> strict_eq (obj_get entries ''domain'') (expectedDomain options))
    \<longrightarrow> signMessageWithKey P (JObj entries) privKey = Inr (btoa P sg)
        \<and> verifyOSM1Signature P now
             \<lparr>payload = entries, signature = btoa P sg, publicKey = pubKey, address = addr\<rparr>
             options
            = \<lparr>valid = True,
               checks = Some \<lparr>signatureValid = True, versionValid = True, domainMatch = True,
                              notExpired = True, addressMatch = True\<rparr>,
               error = None\<rparr>)
   \<and> (case checks (verifyOSM1Signature P now response options) of
        None \<Rightarrow> \<not> valid (verifyOSM1Signature P now response options)
      | Some v \<Rightarrow>
          valid (verifyOSM1Signature P now response options)
            = (signatureValid v \<and> versionValid v \<and> domainMatch v \<and> notExpired v \<and> addressMatch v)
          \<and> (\<exists>pk'. atob P (publicKey response) = Some pk'
               \<and> addressMatch v
                   = (address response = JStr (''oct'' @ base58Encode (sha256 P pk')))))"
proof (intro conjI impI)
  assume h: "atob P (to_string privKey) = Some kb
     \<and> sk = (if length kb = 32 then snd (keyPair_fromSeed P kb) else kb)
     \<and> length sk = 64
     \<and> sg = sign_detached P (utf8 (createSigningMessage entries)) sk
     \<and> length sg = 64
     \<and> atob P (btoa P sg) = Some sg
     \<and> atob P pubKey = Some pk
     \<and> length pk = 32
     \<and> verify_detached P (utf8 (createSigningMessage entries)) sg pk
     \<and> addr = JStr (''oct'' @ base58Encode (sha256 P pk))
     \<and> obj_get entries ''version'' = JStr ''OSM-1''
     \<and> obj_get entries ''expiresAt'' = JUndefined
     \<and> (\<not> truthy (expectedDomain options)
         \<or> strict_eq (obj_get entries ''domain'') (expectedDomain options))"
  from h have a: "atob P (to_string privKey) = Some kb"
    and b: "sk = (if length kb = 32 then snd (keyPair_fromSeed P kb) else kb)"
    and c: "length sk = 64"
    and d: "sg = sign_detached P (utf8 (createSigningMessage entries)) sk"
    by blast+
  show "signMessageWithKey P (JObj entries) privKey = Inr (btoa P sg)"
    unfolding d by (rule signMessageWithKey_signs [OF a b c])
  have "verifyOSM1Signature P now
          \<lparr>payload = entries, signature = btoa P sg, publicKey = pubKey, address = addr\<rparr>
          options
        = \<lparr>valid = True,
           checks = Some \<lparr>signatureValid = True, versionValid = True, domainMatch = True,
                          notExpired = True, addressMatch = True\<rparr>,
           error = None\<rparr>"
    using h
    by (subst verifyOSM1Signature_checks [where sg = sg and pk = pk]) (auto simp: truthy_def)
  then show "verifyOSM1Signature P now
          \<lparr>payload = entries, signature = btoa P sg, publicKey = pubKey, address = addr\<rparr>
          options
        = \<lparr>valid = True,
           checks = Some \<lparr>signatureValid = True, versionValid = True, domainMatch = True,
                          notExpired = True, addressMatch = True\<rparr>,
           error = None\<rparr>" .
next
  show "case checks (verifyOSM1Signature P now response options) of
        None \<Rightarrow> \<not> valid (verifyOSM1Signature P now response options)
      | Some v \<Rightarrow>
          valid (verifyOSM1Signature P now response options)
            = (signatureValid v \<and> versionValid v \<and> domainMatch v \<and> notExpired v \<and> addressMatch v)
          \<and> (\<exists>pk'. atob P (publicKey response) = Some pk'
               \<and> addressMatch v
                   = (address response = JStr (''oct'' @ base58Encode (sha256 P pk'))))"
    by (rule verifyOSM1Signature_valid)
qed

theorem sign_then_verify_witness:
  "obj_get test_message ''version'' = JStr ''OSM-1''
   \<and> obj_get test_message ''expiresAt'' = JUndefined
   \<and> signMessageWithKey test_platform (JObj test_message) (JStr test_seed)
       = Inr (test_seed @ replicate 31 (CHR 0x00) @ [CHR 0xD5])
   \<and> verifyOSM1Signature test_platform 1700000000001
        \<lparr>payload = test_message,
         signature = test_seed @ replicate 31 (CHR 0x00) @ [CHR 0xD5],
         publicKey = test_seed, address = JStr test_address\<rparr> default_options
       = \<lparr>valid = True,
          checks = Some \<lparr>signatureValid = True, versionValid = True, domainMatch = True,
                         notExpired = True, addressMatch = True\<rparr>,
          error = None\<rparr>"
proof -
  have s: "btoa test_platform
             (sign_detached test_platform (utf8 (createSigningMessage test_message)) (test_seed @ test_seed))
           = test_seed @ replicate 31 (CHR 0x00) @ [CHR 0xD5]"
    by code_simp
  have h1: "atob test_platform (to_string (JStr test_seed)) = Some test_seed" by code_simp
  have h2: "test_seed @ test_seed
            = (if length test_seed = 32 then snd (keyPair_fromSeed test_platform test_seed) else test_seed)"
    by code_simp
  have h3: "length (test_seed @ test_seed) = 64" by code_simp
  have h5: "length (sign_detached test_platform (utf8 (createSigningMessage test_message))
              (test_seed @ test_seed)) = 64"
    by code_simp
  have h6: "atob test_platform (btoa test_platform
              (sign_detached test_platform (utf8 (createSigningMessage test_message)) (test_seed @ test_seed)))
            = Some (sign_detached test_platform (utf8 (createSigningMessage test_message))
                      (test_seed @ test_seed))"
    by code_simp
  have h7: "atob test_platform test_seed = Some test_seed" by code_simp
  have h8: "length test_seed = 32" by code_simp
  have h9: "verify_detached test_platform (utf8 (createSigningMessage test_message))
              (sign_detached test_platform (utf8 (createSigningMessage test_message))
                 (test_seed @ test_seed)) test_seed"
    by code_simp
  have h10: "JStr test_address = JStr (''oct'' @ base58Encode (sha256 test_platform test_seed))"
    by code_simp
  have h11: "obj_get test_message ''version'' = JStr ''OSM-1''" by code_simp
  have h12: "obj_get test_message ''expiresAt'' = JUndefined" by code_simp
  have h13: "\<not> truthy (expectedDomain default_options)" by code_simp
  have "signMessageWithKey test_platform (JObj test_message) (JStr test_seed)
          = Inr (btoa test_platform
              (sign_detached test_platform (utf8 (createSigningMessage test_message)) (test_seed @ test_seed)))
        \<and> verifyOSM1Signature test_platform 1700000000001
            \<lparr>payload = test_message,
             signature = btoa test_platform
               (sign_detached test_platform (utf8 (createSigningMessage test_message)) (test_seed @ test_seed)),
             publicKey = test_seed, address = JStr test_address\<rparr> default_options
          = \<lparr>valid = True,
             checks = Some \<lparr>signatureValid = True, versionValid = True, domainMatch = True,
                            notExpired = True, addressMatch = True\<rparr>,
             error = None\<rparr>"
    using sign_then_verify [where P = test_platform and privKey = "JStr test_seed"
        and kb = test_seed and sk = "test_seed @ test_seed" and entries = test_message
        and sg = "sign_detached test_platform (utf8 (createSigningMessage test_message))
                     (test_seed @ test_seed)"
        and pubKey = test_seed and pk = test_seed and addr = "JStr test_address"
        and options = default_options and now = 1700000000001]
      h1 h2 h3 h5 h6 h7 h8 h9 h10 h11 h12 h13
    by blast
  then show ?thesis using h11 h12 unfolding s by simp
qed

end
